theory Spec2Isabelle
  imports Complex_Main "HOL-Library.Sublist"
begin

section \<open>Python strings and dictionaries\<close>

text \<open>
  Strings are lists of characters; the development reads them as ASCII text, so that
  one \<^typ>\<open>char\<close> is one Python character. The string methods used by the services are
  written out below with Python's behaviour on such text.
\<close>

definition py_whitespace :: "char list" where
  "py_whitespace = [CHR 0x09, CHR 0x0A, CHR 0x0B, CHR 0x0C, CHR 0x0D,
                    CHR 0x1C, CHR 0x1D, CHR 0x1E, CHR 0x1F, CHR 0x20]"

definition py_isspace :: "char \<Rightarrow> bool" where
  "py_isspace c = (c \<in> set py_whitespace)"

definition char_lower :: "char \<Rightarrow> char" where
  "char_lower c =
     (case map_of (zip ''ABCDEFGHIJKLMNOPQRSTUVWXYZ'' ''abcdefghijklmnopqrstuvwxyz'') c of
        None \<Rightarrow> c | Some d \<Rightarrow> d)"

text \<open>\<^verbatim>\<open>s.lower()\<close>\<close>

definition py_lower :: "string \<Rightarrow> string" where
  "py_lower s = map char_lower s"

text \<open>\<^verbatim>\<open>s.strip()\<close>\<close>

definition py_strip :: "string \<Rightarrow> string" where
  "py_strip s = rev (dropWhile py_isspace (rev (dropWhile py_isspace s)))"

text \<open>\<^verbatim>\<open>s.split()\<close>: the maximal runs of non-whitespace characters; the first argument
  of the loop is the word being read.\<close>

fun split_from :: "string \<Rightarrow> string \<Rightarrow> string list" where
  "split_from w [] = (if w = [] then [] else [w])"
| "split_from w (c # cs) =
     (if py_isspace c then (if w = [] then split_from [] cs else w # split_from [] cs)
      else split_from (w @ [c]) cs)"

definition py_split :: "string \<Rightarrow> string list" where
  "py_split s = split_from [] s"

text \<open>\<^verbatim>\<open>sep.join(ws)\<close>\<close>

fun py_join :: "string \<Rightarrow> string list \<Rightarrow> string" where
  "py_join sep [] = []"
| "py_join sep [w] = w"
| "py_join sep (w # v # ws) = w @ sep @ py_join sep (v # ws)"

text \<open>\<^verbatim>\<open>s.replace(old, new)\<close> for a non-empty \<open>old\<close>: the occurrences are replaced from
  the left and do not overlap.\<close>

fun py_replace :: "string \<Rightarrow> string \<Rightarrow> string \<Rightarrow> string" where
  "py_replace old new [] = []"
| "py_replace old new (c # cs) =
     (if old \<noteq> [] \<and> prefix old (c # cs)
      then new @ py_replace old new (drop (length old) (c # cs))
      else c # py_replace old new cs)"

text \<open>\<^verbatim>\<open>p in s\<close> on strings: \<open>p\<close> occurs in \<open>s\<close> as a contiguous substring.\<close>

fun py_in :: "string \<Rightarrow> string \<Rightarrow> bool" where
  "py_in p [] = (p = [])"
| "py_in p (c # cs) = (prefix p (c # cs) \<or> py_in p cs)"

definition startswith :: "string \<Rightarrow> string \<Rightarrow> bool" where
  "startswith s p = prefix p s"

definition endswith :: "string \<Rightarrow> string \<Rightarrow> bool" where
  "endswith s p = suffix p s"

text \<open>\<^verbatim>\<open>list(dict.fromkeys(xs))\<close>: the first occurrence of every element, in order.\<close>

definition dict_fromkeys :: "'a list \<Rightarrow> 'a list" where
  "dict_fromkeys xs = rev (remdups (rev xs))"

text \<open>A dictionary with string keys and string values is an association list;
  \<^verbatim>\<open>d.get(k)\<close> is \<open>map_of d k\<close> and \<^verbatim>\<open>d.get(k, default)\<close> is \<open>dict_get\<close>.\<close>

type_synonym pydict = "(string \<times> string) list"

definition dict_get :: "pydict \<Rightarrow> string \<Rightarrow> string \<Rightarrow> string" where
  "dict_get d k dflt = (case map_of d k of None \<Rightarrow> dflt | Some v \<Rightarrow> v)"

text \<open>\<^verbatim>\<open>int(s)\<close> on a decimal string: surrounding whitespace and one sign are accepted,
  single underscores may separate digits, anything else raises \<^verbatim>\<open>ValueError\<close>
  (\<open>None\<close>).\<close>

definition digit_val :: "char \<Rightarrow> nat option" where
  "digit_val c = map_of (zip ''0123456789'' [0, 1, 2, 3, 4, 5, 6, 7, 8, 9]) c"

fun digits_from :: "nat \<Rightarrow> bool \<Rightarrow> string \<Rightarrow> nat option" where
  "digits_from acc after_digit [] = (if after_digit then Some acc else None)"
| "digits_from acc after_digit (c # cs) =
     (if c = CHR ''_'' then (if after_digit \<and> cs \<noteq> [] then digits_from acc False cs else None)
      else (case digit_val c of
              None \<Rightarrow> None
            | Some d \<Rightarrow> digits_from (10 * acc + d) True cs))"

definition py_int :: "string \<Rightarrow> int option" where
  "py_int s =
     (case py_strip s of
        [] \<Rightarrow> None
      | c # cs \<Rightarrow>
          if c = CHR ''-'' then map_option (\<lambda>n. - int n) (digits_from 0 False cs)
          else if c = CHR ''+'' then map_option int (digits_from 0 False cs)
          else map_option int (digits_from 0 False (c # cs)))"

section \<open>Scraper service: queries and search hits\<close>

text \<open>A search hit is the dictionary \<^verbatim>\<open>{'url': ..., 'title': ..., 'source': ...}\<close>.\<close>

type_synonym search_hit = pydict

definition word_chars :: "char list" where
  "word_chars = ''abcdefghijklmnopqrstuvwxyzABCDEFGHIJKLMNOPQRSTUVWXYZ0123456789_''"

definition stop_words :: "string list" where
  "stop_words = [''original'', ''soundtrack'', ''ost'', ''feat'', ''featuring'', ''remix'',
                 ''version'']"

text \<open>\<^verbatim>\<open>ScraperService.clean_search_query\<close>. The substitution
  \<^verbatim>\<open>re.sub(r'[^\w\s]', ' ', query)\<close> turns every character that is neither a word
  character nor whitespace into a space.\<close>

definition clean_search_query :: "string \<Rightarrow> string" where
  "clean_search_query query =
     (let query1 = map (\<lambda>c. if c \<in> set word_chars \<or> py_isspace c then c else CHR '' '') query;
          query2 = py_join '' '' (py_split query1);
          words = py_split (py_lower query2);
          words' = filter (\<lambda>word. word \<notin> set stop_words) words
      in py_join '' '' words')"

text \<open>\<^verbatim>\<open>ScraperService._generate_query_variations\<close>. The last line of the source is
  \<^verbatim>\<open>list(set(variations))[:5]\<close>; the order in which Python enumerates a set of strings
  is not fixed by the language, so it is the parameter \<open>set_order\<close>, which maps the
  list the set is built from to the list read back from it.\<close>

definition valid_set_order :: "(string list \<Rightarrow> string list) \<Rightarrow> bool" where
  "valid_set_order set_order = (\<forall>xs. distinct (set_order xs) \<and> set (set_order xs) = set xs)"

definition variation_candidates :: "string \<Rightarrow> string list" where
  "variation_candidates query =
     (let words = py_split query;
          drops = (if length words > 2
                   then concat (map (\<lambda>i. let variation = py_join '' '' (take i words @ drop (i + 1) words)
                                          in if length (py_strip variation) > 3
                                             then [py_strip variation] else [])
                                [0 ..< length words])
                   else []);
          firsts = (if length words > 2
                    then [py_join '' '' (take 2 words), py_join '' '' (take 3 words)]
                    else [])
      in drops @ firsts @
         [py_replace '' '' ''+'' query, py_replace ''&'' ''and'' query,
          py_replace ''and'' ''&'' query])"

definition generate_query_variations :: "(string list \<Rightarrow> string list) \<Rightarrow> string \<Rightarrow> string list" where
  "generate_query_variations set_order query = take 5 (set_order (variation_candidates query))"

text \<open>\<^verbatim>\<open>ScraperService._filter_and_deduplicate_results\<close>: the loop carries the two
  sets of seen values and the list of results kept so far.\<close>

definition unwanted_words :: "string list" where
  "unwanted_words = [''advertisement'', ''ad'', ''promo'']"

definition hit_url :: "search_hit \<Rightarrow> string" where
  "hit_url result = dict_get result ''url'' ''''"

definition hit_title :: "search_hit \<Rightarrow> string" where
  "hit_title result = py_strip (py_lower (dict_get result ''title'' ''''))"

definition unwanted_title :: "string \<Rightarrow> bool" where
  "unwanted_title title =
     (length title < 5 \<or> list_ex (\<lambda>word. py_in word (py_lower title)) unwanted_words)"

fun filter_loop ::
  "string set \<Rightarrow> string set \<Rightarrow> search_hit list \<Rightarrow> search_hit list \<Rightarrow> search_hit list" where
  "filter_loop seen_urls seen_titles filtered_results [] = filtered_results"
| "filter_loop seen_urls seen_titles filtered_results (result # results) =
     (let url = hit_url result; title = hit_title result
      in if url \<in> seen_urls \<or> title \<in> seen_titles
         then filter_loop seen_urls seen_titles filtered_results results
         else if unwanted_title title
         then filter_loop seen_urls seen_titles filtered_results results
         else filter_loop (insert url seen_urls) (insert title seen_titles)
                (filtered_results @ [result]) results)"

definition filter_and_deduplicate_results :: "search_hit list \<Rightarrow> search_hit list" where
  "filter_and_deduplicate_results results = filter_loop {} {} [] results"

section \<open>The outside world\<close>

text \<open>
  The services talk to the network, to a browser driver and to the file system. The
  state they change is the record \<open>world\<close>: a clock that counts the network calls made
  so far, the files written (path and size in bytes) and the log of what was done.
  Everything the program only reads is the record \<open>env\<close>: the answer of every request
  as a function of the clock and the address, and the library functions the development
  does not look into (\<^verbatim>\<open>urljoin\<close>, \<^verbatim>\<open>quote_plus\<close>, \<^verbatim>\<open>urlparse\<close>, the regular
  expression search of script text, the iteration order of a set of strings).
  A request that raises is \<open>Inl\<close> of an error. \<^verbatim>\<open>urljoin\<close> raises \<^verbatim>\<open>ValueError\<close> on a
  reference whose host part is malformed (as in \<^verbatim>\<open>//[download\<close>), which is the value
  \<open>None\<close>; the references it is given come from the page that was fetched. The
  log tells a request for a page (\<open>Http_Get\<close>) from the request that opens the
  transfer of a file (\<^verbatim>\<open>stream=True\<close>, \<open>Http_Get_Stream\<close>).
\<close>

datatype net_error = Transport_Error | Timeout

datatype selector =
  Href_Songs | Href_Movie | Href_Album | Entry_Title_A | Post_Title_A | H2_A | H3_A

record anchor =
  anchor_href :: "string option"
  anchor_text :: string

record soup =
  soup_select :: "selector \<Rightarrow> anchor list"
  soup_a_href :: "string list"
  soup_audio :: "string option list"
  soup_script :: "string option list"

record page_response =
  page_status :: nat
  page_soup :: soup

record browser_element =
  element_href :: "string option"
  element_text :: string
  element_onclick :: "string option"

datatype css_query = Css_Search_Links | Css_Download_Elements

record head_response =
  head_status :: nat
  head_content_type :: "string option"
  head_content_length :: "string option"

datatype stream_end = Stream_Done | Stream_Broken

record get_response =
  get_status :: nat
  get_content_type :: "string option"
  get_content_length :: "string option"
  get_chunks :: "nat list"
  get_stream_end :: stream_end

record env =
  session_get :: "nat \<Rightarrow> string \<Rightarrow> net_error + page_response"
  session_head :: "nat \<Rightarrow> string \<Rightarrow> net_error + head_response"
  session_get_stream :: "nat \<Rightarrow> string \<Rightarrow> net_error + get_response"
  get_driver :: "nat \<Rightarrow> bool"
  driver_get :: "nat \<Rightarrow> string \<Rightarrow> css_query \<Rightarrow> net_error + browser_element option list"
  quote_plus :: "string \<Rightarrow> string"
  urljoin :: "string \<Rightarrow> string \<Rightarrow> string option"
  urlparse_path :: "string \<Rightarrow> string"
  findall_mp3 :: "string \<Rightarrow> string list"
  set_order :: "string list \<Rightarrow> string list"
  open_wb :: "string \<Rightarrow> bool"
  makedirs :: "string \<Rightarrow> bool"

datatype event =
  Http_Get string | Http_Head string | Http_Get_Stream string | Browser_Get string
| Log_Attempt nat | Sleep nat | Sleep_Random

record world =
  clock :: nat
  files :: "string \<rightharpoonup> nat"
  log :: "event list"

definition net_call :: "event \<Rightarrow> world \<Rightarrow> world" where
  "net_call e w = w\<lparr>clock := clock w + 1, log := log w @ [e]\<rparr>"

definition sleep :: "event \<Rightarrow> world \<Rightarrow> world" where
  "sleep e w = w\<lparr>log := log w @ [e]\<rparr>"

text \<open>\<^verbatim>\<open>response.raise_for_status()\<close> raises on the status codes 400 to 599.\<close>

definition raises_for_status :: "nat \<Rightarrow> bool" where
  "raises_for_status status = (400 \<le> status \<and> status < 600)"

text \<open>A loop inside a \<^verbatim>\<open>try\<close> block that extends a list by what each of its steps
  yields: a step that raises (\<open>None\<close>) ends the loop, and the list built so far is
  lost.\<close>

fun extend_all :: "'a list option list \<Rightarrow> 'a list option" where
  "extend_all [] = Some []"
| "extend_all (None # steps) = None"
| "extend_all (Some xs # steps) = map_option (\<lambda>ys. xs @ ys) (extend_all steps)"

section \<open>Scraper service: the search cascade\<close>

definition masstamilan :: string where
  "masstamilan = ''https://masstamilan.dev''"

definition backup_masstamilan :: string where
  "backup_masstamilan = ''https://www.masstamilan.com''"

definition selectors :: "selector list" where
  "selectors = [Href_Songs, Href_Movie, Href_Album, Entry_Title_A, Post_Title_A, H2_A, H3_A]"

text \<open>The body of the loops of \<^verbatim>\<open>_search_masstamilan_direct\<close> for one anchor: the
  hits it appends, or \<open>None\<close> when \<^verbatim>\<open>urljoin\<close> raises; the address is joined before
  the title is looked at.\<close>

definition direct_hit :: "env \<Rightarrow> string \<Rightarrow> anchor \<Rightarrow> search_hit list option" where
  "direct_hit env base_url link =
     (case anchor_href link of
        None \<Rightarrow> Some []
      | Some href \<Rightarrow>
          if href \<noteq> [] \<and>
             list_ex (\<lambda>keyword. py_in keyword (py_lower href)) [''/songs/'', ''/movie/'', ''/album/'']
          then (case urljoin env base_url href of
                  None \<Rightarrow> None
                | Some full_url \<Rightarrow>
                    (let title = anchor_text link
                     in if title \<noteq> [] \<and> length title > 5
                        then Some [[(''url'', full_url), (''title'', title),
                                    (''source'', ''masstamilan_direct'')]]
                        else Some []))
          else Some [])"

definition direct_hits :: "env \<Rightarrow> string \<Rightarrow> soup \<Rightarrow> search_hit list option" where
  "direct_hits env base_url page =
     extend_all (concat (map (\<lambda>selector. map (direct_hit env base_url) (soup_select page selector))
                           selectors))"

text \<open>\<^verbatim>\<open>ScraperService._search_masstamilan_direct\<close>: every exception ends in the
  empty list.\<close>

definition search_masstamilan_direct ::
  "env \<Rightarrow> world \<Rightarrow> string \<Rightarrow> string \<Rightarrow> search_hit list \<times> world" where
  "search_masstamilan_direct env w query base =
     (let base_url = (if base = [] then masstamilan else base);
          search_url = base_url @ ''/?s='' @ quote_plus env query;
          w1 = net_call (Http_Get search_url) (sleep Sleep_Random w)
      in case session_get env (clock w) search_url of
           Inl e \<Rightarrow> ([], w1)
         | Inr response \<Rightarrow>
             if raises_for_status (page_status response) then ([], w1)
             else (case direct_hits env base_url (page_soup response) of
                     None \<Rightarrow> ([], w1)
                   | Some results \<Rightarrow> (results, w1)))"

definition selenium_hits :: "browser_element option list \<Rightarrow> search_hit list" where
  "selenium_hits links =
     concat (map (\<lambda>link.
       case link of
         None \<Rightarrow> []
       | Some el \<Rightarrow>
           (case element_href el of
              None \<Rightarrow> []
            | Some href \<Rightarrow>
                (let title = py_strip (element_text el)
                 in if href \<noteq> [] \<and> title \<noteq> [] \<and> length title > 5
                    then [[(''url'', href), (''title'', title), (''source'', ''masstamilan'')]]
                    else [])))
       links)"

text \<open>\<^verbatim>\<open>ScraperService._search_masstamilan_selenium\<close>\<close>

definition search_masstamilan_selenium ::
  "env \<Rightarrow> world \<Rightarrow> string \<Rightarrow> search_hit list \<times> world" where
  "search_masstamilan_selenium env w query =
     (if \<not> get_driver env (clock w) then ([], w)
      else (let search_url = masstamilan @ ''/?s='' @ quote_plus env query;
                w1 = net_call (Browser_Get search_url) w
            in case driver_get env (clock w) search_url Css_Search_Links of
                 Inl e \<Rightarrow> ([], w1)
               | Inr links \<Rightarrow> (selenium_hits links, sleep (Sleep 3) w1)))"

text \<open>The loop over the query variations in \<^verbatim>\<open>search_masstamilan\<close>; it is entered
  with no search result yet, and leaves at the first variation that yields one.\<close>

fun variation_loop :: "env \<Rightarrow> world \<Rightarrow> string list \<Rightarrow> search_hit list \<times> world" where
  "variation_loop env w [] = ([], w)"
| "variation_loop env w (variation # variations) =
     (case search_masstamilan_direct env w variation masstamilan of
        (results4, w') \<Rightarrow>
          if results4 \<noteq> [] then (results4, w') else variation_loop env w' variations)"

text \<open>\<^verbatim>\<open>ScraperService.search_masstamilan\<close>\<close>

definition search_masstamilan :: "env \<Rightarrow> world \<Rightarrow> string \<Rightarrow> search_hit list \<times> world" where
  "search_masstamilan env w query =
     (let cleaned_query = clean_search_query query;
          (results1, w1) = search_masstamilan_direct env w cleaned_query masstamilan;
          (results2, w2) = (if results1 = []
                            then search_masstamilan_direct env w1 cleaned_query backup_masstamilan
                            else (results1, w1));
          (results3, w3) = (if results2 = []
                            then search_masstamilan_selenium env w2 cleaned_query
                            else (results2, w2));
          (results4, w4) = (if results3 = []
                            then variation_loop env w3
                                   (generate_query_variations (set_order env) cleaned_query)
                            else (results3, w3));
          unique_results = filter_and_deduplicate_results results4
      in (take 20 unique_results, w4))"

section \<open>Scraper service: download links of a song page\<close>

definition collect_links :: "env \<Rightarrow> soup \<Rightarrow> string list" where
  "collect_links env page =
     filter (\<lambda>href. endswith href ''.mp3'' \<or> py_in ''download'' (py_lower href)) (soup_a_href page)
     @ concat (map (\<lambda>src. case src of
                             None \<Rightarrow> []
                           | Some s \<Rightarrow> if s \<noteq> [] \<and> endswith s ''.mp3'' then [s] else [])
                 (soup_audio page))
     @ concat (map (\<lambda>script. case script of
                                None \<Rightarrow> []
                              | Some str \<Rightarrow> if str \<noteq> [] then findall_mp3 env str else [])
                 (soup_script page))"

text \<open>The pass ``Clean and validate links'' for one candidate: the links it appends,
  or \<open>None\<close> when \<^verbatim>\<open>urljoin\<close> raises.\<close>

definition clean_link :: "env \<Rightarrow> string \<Rightarrow> string \<Rightarrow> string list option" where
  "clean_link env song_page_url link =
     (if startswith link ''http'' \<and> endswith link ''.mp3'' then Some [link]
      else if startswith link ''/''
      then (case urljoin env song_page_url link of
              None \<Rightarrow> None
            | Some full_link \<Rightarrow> Some [full_link])
      else Some [])"

definition clean_links :: "env \<Rightarrow> string \<Rightarrow> string list \<Rightarrow> string list option" where
  "clean_links env song_page_url download_links =
     extend_all (map (clean_link env song_page_url) download_links)"

definition extract_links :: "env \<Rightarrow> soup \<Rightarrow> string \<Rightarrow> string list option" where
  "extract_links env page song_page_url =
     map_option dict_fromkeys (clean_links env song_page_url (collect_links env page))"

text \<open>\<^verbatim>\<open>ScraperService.get_download_links\<close>: every exception, also one raised while
  the links are cleaned, ends in the empty list.\<close>

definition get_download_links :: "env \<Rightarrow> world \<Rightarrow> string \<Rightarrow> string list \<times> world" where
  "get_download_links env w song_page_url =
     (let w1 = net_call (Http_Get song_page_url) w
      in case session_get env (clock w) song_page_url of
           Inl e \<Rightarrow> ([], w1)
         | Inr response \<Rightarrow>
             if raises_for_status (page_status response) then ([], w1)
             else (case extract_links env (page_soup response) song_page_url of
                     None \<Rightarrow> ([], w1)
                   | Some unique_links \<Rightarrow> (unique_links, w1)))"



section \<open>Download service\<close>

definition supported_formats :: "string list" where
  "supported_formats = [''.mp3'', ''.m4a'', ''.wav'', ''.flac'', ''.aac'']"

definition max_file_size :: nat where
  "max_file_size = 100 * 1024 * 1024"


definition invalid_chars :: string where
  "invalid_chars = [CHR ''<'', CHR ''>'', CHR '':'', CHR 0x22, CHR ''/'', CHR 0x5C,
                    CHR ''|'', CHR ''?'', CHR ''*'']"

text \<open>\<^verbatim>\<open>DownloadService.sanitize_filename\<close>\<close>

definition sanitize_filename :: "string \<Rightarrow> string" where
  "sanitize_filename filename =
     (let filename1 = foldl (\<lambda>name char. py_replace [char] ''_'' name) filename invalid_chars;
          filename2 = py_join '' '' (py_split filename1)
      in take 100 filename2)"

text \<open>The test \<^verbatim>\<open>any(ext in url.lower() for ext in self.supported_formats)\<close>, which
  both \<^verbatim>\<open>validate_download_link\<close> and \<^verbatim>\<open>_download_file\<close> make.\<close>

definition url_has_format :: "string \<Rightarrow> bool" where
  "url_has_format url = list_ex (\<lambda>ext. py_in ext (py_lower url)) supported_formats"

definition header_or_empty :: "string option \<Rightarrow> string" where
  "header_or_empty h = (case h of None \<Rightarrow> [] | Some v \<Rightarrow> v)"

definition is_audio_type :: "string \<Rightarrow> bool" where
  "is_audio_type content_type =
     (py_in ''audio'' content_type \<or> py_in ''mpeg'' content_type \<or>
      py_in ''mp3'' content_type \<or> py_in ''mp4'' content_type)"

text \<open>\<^verbatim>\<open>DownloadService.validate_download_link\<close>: the result and the world after it.
  Every exception inside (a failed probe, a length that is not a number) gives
  \<open>False\<close>.\<close>

definition validate_download_link :: "env \<Rightarrow> world \<Rightarrow> string \<Rightarrow> bool \<times> world" where
  "validate_download_link env w url =
     (if url_has_format url then (True, w)
      else (let w1 = net_call (Http_Head url) w
            in case session_head env (clock w) url of
                 Inl e \<Rightarrow> (False, w1)
               | Inr response \<Rightarrow>
                   if head_status response \<noteq> 200 then (False, w1)
                   else (let content_type = py_lower (header_or_empty (head_content_type response));
                             is_audio = is_audio_type content_type
                         in case head_content_length response of
                              None \<Rightarrow> (is_audio, w1)
                            | Some content_length \<Rightarrow>
                                if content_length = [] then (is_audio, w1)
                                else (case py_int content_length of
                                        None \<Rightarrow> (False, w1)
                                      | Some declared_size \<Rightarrow>
                                          if declared_size < 1024 * 1024 \<or>
                                             declared_size > int max_file_size
                                          then (False, w1)
                                          else (is_audio, w1)))))"

text \<open>\<^verbatim>\<open>os.path.splitext(p)[1]\<close> and \<^verbatim>\<open>os.path.join(a, b)\<close> on POSIX paths.\<close>

definition splitext_ext :: "string \<Rightarrow> string" where
  "splitext_ext p =
     (let base = rev (takeWhile (\<lambda>c. c \<noteq> CHR ''/'') (rev p))
      in if CHR ''.'' \<in> set base
         then (let tail = rev (takeWhile (\<lambda>c. c \<noteq> CHR ''.'') (rev base));
                   stem = take (length base - length tail - 1) base
               in if list_ex (\<lambda>c. c \<noteq> CHR ''.'') stem then CHR ''.'' # tail else [])
         else [])"

definition os_path_join :: "string \<Rightarrow> string \<Rightarrow> string" where
  "os_path_join a b =
     (if startswith b ''/'' then b
      else if a = [] \<or> endswith a ''/'' then a @ b
      else a @ ''/'' @ b)"

text \<open>The choice of the extension and of the file name in \<^verbatim>\<open>_download_file\<close>.\<close>

definition choose_ext :: "env \<Rightarrow> string \<Rightarrow> string \<Rightarrow> string" where
  "choose_ext env content_type url =
     (if py_in ''audio/mpeg'' content_type \<or> py_in ''audio/mp3'' content_type then ''.mp3''
      else if py_in ''audio/mp4'' content_type \<or> py_in ''audio/m4a'' content_type then ''.m4a''
      else (let url_ext = py_lower (splitext_ext (urlparse_path env url))
            in if url_ext \<in> set supported_formats then url_ext else ''.mp3''))"

definition destination_filename :: "string \<Rightarrow> string \<Rightarrow> string" where
  "destination_filename filename ext =
     (let safe_filename = sanitize_filename filename
      in if list_ex (\<lambda>fmt. endswith (py_lower safe_filename) fmt) supported_formats
         then safe_filename
         else safe_filename @ ext)"

text \<open>The loop over \<^verbatim>\<open>response.iter_content(chunk_size=8192)\<close>. A chunk is the number
  of bytes it holds, a file the number of bytes written to it. The stream ends after
  its last chunk, or raises there (\<open>Stream_Broken\<close>).\<close>

datatype stream_outcome = Too_Large | Completed nat | Interrupted

definition write_file :: "string \<Rightarrow> nat \<Rightarrow> world \<Rightarrow> world" where
  "write_file file_path chunk w =
     w\<lparr>files := (files w)(file_path \<mapsto>
          (case files w file_path of None \<Rightarrow> chunk | Some n \<Rightarrow> n + chunk))\<rparr>"

definition os_remove :: "string \<Rightarrow> world \<Rightarrow> world" where
  "os_remove file_path w = w\<lparr>files := (files w)(file_path := None)\<rparr>"

fun write_chunks ::
  "world \<Rightarrow> string \<Rightarrow> nat \<Rightarrow> nat list \<Rightarrow> stream_end \<Rightarrow> stream_outcome \<times> world" where
  "write_chunks w file_path downloaded_size [] Stream_Done = (Completed downloaded_size, w)"
| "write_chunks w file_path downloaded_size [] Stream_Broken = (Interrupted, w)"
| "write_chunks w file_path downloaded_size (chunk # chunks) e =
     (if chunk \<noteq> 0
      then (let w1 = write_file file_path chunk w;
                downloaded_size' = downloaded_size + chunk
            in if downloaded_size' > max_file_size
               then (Too_Large, os_remove file_path w1)
               else write_chunks w1 file_path downloaded_size' chunks e)
      else write_chunks w file_path downloaded_size chunks e)"

text \<open>The part of \<^verbatim>\<open>_download_file\<close> after the response has arrived.\<close>

definition save_response ::
  "env \<Rightarrow> world \<Rightarrow> string \<Rightarrow> string \<Rightarrow> string \<Rightarrow> get_response \<Rightarrow> bool \<times> world" where
  "save_response env w url download_folder filename response =
     (let ext = choose_ext env (header_or_empty (get_content_type response)) url;
          safe_filename = destination_filename filename ext;
          file_path = os_path_join download_folder safe_filename
      in if \<not> open_wb env file_path then (False, w)
         else (case write_chunks (w\<lparr>files := (files w)(file_path \<mapsto> 0)\<rparr>) file_path 0
                      (get_chunks response) (get_stream_end response) of
                 (Too_Large, w') \<Rightarrow> (False, w')
               | (Interrupted, w') \<Rightarrow> (False, w')
               | (Completed downloaded_size, w') \<Rightarrow>
                   (case files w' file_path of
                      Some n \<Rightarrow> if n > 1024 then (True, w') else (False, os_remove file_path w')
                    | None \<Rightarrow> (False, w'))))"

definition fetch_and_save ::
  "env \<Rightarrow> world \<Rightarrow> string \<Rightarrow> string \<Rightarrow> string \<Rightarrow> bool \<times> world" where
  "fetch_and_save env w url download_folder filename =
     (let w1 = net_call (Http_Get_Stream url) w
      in case session_get_stream env (clock w) url of
           Inl e \<Rightarrow> (False, w1)
         | Inr response \<Rightarrow>
             if raises_for_status (get_status response) then (False, w1)
             else (case get_content_length response of
                     None \<Rightarrow> save_response env w1 url download_folder filename response
                   | Some content_length \<Rightarrow>
                       if content_length = []
                       then save_response env w1 url download_folder filename response
                       else (case py_int content_length of
                               None \<Rightarrow> (False, w1)
                             | Some n \<Rightarrow>
                                 if n > int max_file_size then (False, w1)
                                 else save_response env w1 url download_folder filename response)))"

text \<open>\<^verbatim>\<open>DownloadService._download_file\<close>\<close>

definition download_file ::
  "env \<Rightarrow> world \<Rightarrow> string \<Rightarrow> string \<Rightarrow> string \<Rightarrow> bool \<times> world" where
  "download_file env w url download_folder filename =
     (if url = [] \<or> \<not> startswith url ''http'' then (False, w)
      else if \<not> url_has_format url
      then (let w1 = net_call (Http_Head url) w
            in case session_head env (clock w) url of
                 Inl e \<Rightarrow> fetch_and_save env w1 url download_folder filename
               | Inr head_response \<Rightarrow>
                   (let content_type = py_lower (header_or_empty (head_content_type head_response))
                    in if \<not> (py_in ''audio'' content_type \<or> py_in ''mpeg'' content_type)
                       then (False, w1)
                       else fetch_and_save env w1 url download_folder filename))
      else fetch_and_save env w url download_folder filename)"















section \<open>Reference definitions and example data\<close>

text \<open>The file name policy in its shortest reading: every unsafe character becomes an
  underscore and the name is cut to 100 characters. \<open>sanitize_filename\<close> is compared
  with it below.\<close>

definition replace_and_truncate :: "string \<Rightarrow> string" where
  "replace_and_truncate name =
     take 100 (map (\<lambda>c. if c \<in> set invalid_chars then CHR ''_'' else c) name)"

text \<open>A string with a character that \<^verbatim>\<open>strip()\<close> keeps.\<close>

definition nonblank :: "string \<Rightarrow> bool" where
  "nonblank s = (\<exists>c\<in>set s. \<not> py_isspace c)"

text \<open>A stand-in for \<^verbatim>\<open>urljoin\<close> with an \<^verbatim>\<open>http\<close> or \<^verbatim>\<open>https\<close> base. A reference
  that starts with \<^verbatim>\<open>http://\<close> or \<^verbatim>\<open>https://\<close> is kept; a reference that starts
  with \<^verbatim>\<open>//\<close> takes the scheme of the base; a path that starts with \<^verbatim>\<open>/\<close>
  replaces the path of the base; any other path replaces the last segment of the path
  of the base. A host part with a bracket that is not matched raises
  \<^verbatim>\<open>ValueError\<close>, as in urllib. Other schemes, dot segments, the empty reference,
  bare queries and fragments, and hosts in matched brackets are not treated: the
  examples have none.\<close>

definition url_netloc :: "string \<Rightarrow> string" where
  "url_netloc rest = takeWhile (\<lambda>c. c \<noteq> CHR ''/'' \<and> c \<noteq> CHR ''?'' \<and> c \<noteq> CHR ''#'') rest"

definition unmatched_bracket :: "string \<Rightarrow> bool" where
  "unmatched_bracket netloc = ((CHR ''['' \<in> set netloc) \<noteq> (CHR '']'' \<in> set netloc))"

definition url_scheme :: "string \<Rightarrow> string" where
  "url_scheme url = takeWhile (\<lambda>c. c \<noteq> CHR '':'') url"

definition url_origin :: "string \<Rightarrow> string" where
  "url_origin url =
     url_scheme url @ ''://'' @ url_netloc (drop (length (url_scheme url) + 3) url)"

definition url_directory :: "string \<Rightarrow> string" where
  "url_directory url =
     (let path = takeWhile (\<lambda>c. c \<noteq> CHR ''?'' \<and> c \<noteq> CHR ''#'')
                   (drop (length (url_origin url)) url);
          directory = rev (dropWhile (\<lambda>c. c \<noteq> CHR ''/'') (rev path))
      in if directory = [] then ''/'' else directory)"

definition example_urljoin :: "string \<Rightarrow> string \<Rightarrow> string option" where
  "example_urljoin base href =
     (if startswith href ''https://''
      then (if unmatched_bracket (url_netloc (drop 8 href)) then None else Some href)
      else if startswith href ''http://''
      then (if unmatched_bracket (url_netloc (drop 7 href)) then None else Some href)
      else if startswith href ''//''
      then (if unmatched_bracket (url_netloc (drop 2 href)) then None
            else Some (url_scheme base @ '':'' @ href))
      else if startswith href ''/'' then Some (url_origin base @ href)
      else Some (url_origin base @ url_directory base @ href))"

text \<open>An environment in which every request fails and no browser driver starts, and
  the world before anything has happened. The other library functions are simple
  stand-ins that agree with Python's on the addresses used in the examples.\<close>

definition example_url_path :: "string \<Rightarrow> string" where
  "example_url_path url =
     (let rest = (if startswith url ''https://'' then drop 8 url
                  else if startswith url ''http://'' then drop 7 url
                  else url)
      in takeWhile (\<lambda>c. c \<noteq> CHR ''?'' \<and> c \<noteq> CHR ''#'') (dropWhile (\<lambda>c. c \<noteq> CHR ''/'') rest))"

definition offline_env :: env where
  "offline_env =
     \<lparr>session_get = (\<lambda>t url. Inl Transport_Error),
      session_head = (\<lambda>t url. Inl Transport_Error),
      session_get_stream = (\<lambda>t url. Inl Transport_Error),
      get_driver = (\<lambda>t. False),
      driver_get = (\<lambda>t url q. Inl Transport_Error),
      quote_plus = py_replace '' '' ''+'',
      urljoin = example_urljoin,
      urlparse_path = example_url_path,
      findall_mp3 = (\<lambda>s. []),
      set_order = remdups,
      open_wb = (\<lambda>p. True),
      makedirs = (\<lambda>p. True)\<rparr>"

definition empty_world :: world where
  "empty_world = \<lparr>clock = 0, files = Map.empty, log = []\<rparr>"

definition example_hits :: "search_hit list" where
  "example_hits =
     [[(''url'', ''https://masstamilan.dev/songs/vaathi''), (''title'', ''Vaathi Coming''),
       (''source'', ''masstamilan_direct'')],
      [(''url'', ''https://masstamilan.dev/songs/vaathi''), (''title'', ''Vaathi Coming Song''),
       (''source'', ''masstamilan_direct'')],
      [(''url'', ''https://masstamilan.dev/songs/promo''), (''title'', ''Movie Promo''),
       (''source'', ''masstamilan_direct'')],
      [(''url'', ''https://masstamilan.dev/songs/kutti''), (''title'', ''  Kutti Story ''),
       (''source'', ''masstamilan_direct'')],
      [(''url'', ''https://masstamilan.dev/songs/kutti-2''), (''title'', ''kutti story''),
       (''source'', ''masstamilan_direct'')]]"

text \<open>A transfer of one chunk of 8192 bytes that arrives whole.\<close>

definition small_audio_response :: get_response where
  "small_audio_response =
     \<lparr>get_status = 200, get_content_type = Some ''audio/mpeg'', get_content_length = None,
      get_chunks = [8192], get_stream_end = Stream_Done\<rparr>"

text \<open>The fast path of the link validator as the specification words it: the URL
  itself ends in a supported format. \<open>url_has_format\<close>, the test the code makes, is
  compared with it below.\<close>

definition url_ends_with_format :: "string \<Rightarrow> bool" where
  "url_ends_with_format url = list_ex (\<lambda>ext. endswith (py_lower url) ext) supported_formats"

text \<open>What the validator asks of the answer to its probe.\<close>

definition probe_accepts :: "head_response \<Rightarrow> bool" where
  "probe_accepts r =
     (head_status r = 200 \<and>
      is_audio_type (py_lower (header_or_empty (head_content_type r))) \<and>
      (case head_content_length r of
         None \<Rightarrow> True
       | Some cl \<Rightarrow>
           cl = [] \<or> (\<exists>n. py_int cl = Some n \<and> 1024 * 1024 \<le> n \<and> n \<le> 100 * 1024 * 1024)))"

text \<open>An environment whose probes answer with status 200 and an audio type; the
  declared length is 50 MiB for one address, 500 KiB for another, absent otherwise.\<close>

definition probed_env :: env where
  "probed_env = offline_env
     \<lparr>session_head := (\<lambda>t url.
        Inr \<lparr>head_status = 200, head_content_type = Some ''audio/mpeg'',
             head_content_length =
               (if url = ''https://files.example/get?id=7'' then Some ''52428800''
                else if url = ''https://files.example/get?id=8'' then Some ''512000''
                else None)\<rparr>)\<rparr>"

text \<open>An environment whose probes answer with status 200, the content type of a video
  and a declared length of 50 MiB.\<close>

definition video_probe_env :: env where
  "video_probe_env = offline_env
     \<lparr>session_head := (\<lambda>t url.
        Inr \<lparr>head_status = 200, head_content_type = Some ''video/mp4'',
             head_content_length = Some ''52428800''\<rparr>)\<rparr>"

text \<open>An environment in which every transfer sends one chunk of 8192 bytes and then
  breaks.\<close>

definition broken_stream_env :: env where
  "broken_stream_env = offline_env
     \<lparr>session_get_stream := (\<lambda>t url.
        Inr \<lparr>get_status = 200, get_content_type = Some ''audio/mpeg'',
             get_content_length = None, get_chunks = [8192],
             get_stream_end = Stream_Broken\<rparr>)\<rparr>"




text \<open>The search cascade as the specification words it: the stages in their fixed
  order, each run only while no stage before it has yielded a hit.\<close>

datatype stage = Primary | Backup | Dynamic | Variation string

fun run_stage :: "env \<Rightarrow> world \<Rightarrow> string \<Rightarrow> stage \<Rightarrow> search_hit list \<times> world" where
  "run_stage env w query Primary = search_masstamilan_direct env w query masstamilan"
| "run_stage env w query Backup = search_masstamilan_direct env w query backup_masstamilan"
| "run_stage env w query Dynamic = search_masstamilan_selenium env w query"
| "run_stage env w query (Variation v) = search_masstamilan_direct env w v masstamilan"

fun cascade :: "env \<Rightarrow> world \<Rightarrow> string \<Rightarrow> stage list \<Rightarrow> search_hit list \<times> world" where
  "cascade env w query [] = ([], w)"
| "cascade env w query (st # sts) =
     (case run_stage env w query st of
        (hits, w') \<Rightarrow> if hits \<noteq> [] then (hits, w') else cascade env w' query sts)"

definition stages :: "env \<Rightarrow> string \<Rightarrow> stage list" where
  "stages env query =
     [Primary, Backup, Dynamic] @ map Variation (generate_query_variations (set_order env) query)"

text \<open>A search page with one song link, and environments that serve it from the
  primary site, or from the backup site only.\<close>

definition page_with_link :: "string \<Rightarrow> string \<Rightarrow> page_response" where
  "page_with_link href title =
     \<lparr>page_status = 200,
      page_soup = \<lparr>soup_select = (\<lambda>selector. if selector = Href_Songs
                                              then [\<lparr>anchor_href = Some href, anchor_text = title\<rparr>]
                                              else []),
                   soup_a_href = [href], soup_audio = [], soup_script = []\<rparr>\<rparr>"

definition adiye_env :: env where
  "adiye_env = offline_env
     \<lparr>session_get := (\<lambda>t url. Inr (page_with_link ''/songs/adiye-azhage'' ''Adiye Azhage''))\<rparr>"

definition backup_only_env :: env where
  "backup_only_env = offline_env
     \<lparr>session_get := (\<lambda>t url.
        if startswith url backup_masstamilan
        then Inr (page_with_link ''/songs/kutti-story'' ''Kutti Story'')
        else Inl Timeout)\<rparr>"

text \<open>A song page with three anchors: an absolute link with ``download'' in it, a
  relative link to an MP3 file and an absolute link to an MP3 file.\<close>

definition song_page :: page_response where
  "song_page =
     \<lparr>page_status = 200,
      page_soup = \<lparr>soup_select = (\<lambda>selector. []),
                   soup_a_href = [''https://masstamilan.dev/download?id=7'',
                                  ''/files/kutti.mp3'',
                                  ''https://cdn.example/kutti.mp3'',
                                  ''/files/kutti.mp3''],
                   soup_audio = [], soup_script = []\<rparr>\<rparr>"

definition song_page_env :: env where
  "song_page_env = offline_env
     \<lparr>session_get := (\<lambda>t url. Inr song_page),
      session_get_stream := (\<lambda>t url.
        if url = ''https://cdn.example/kutti.mp3'' then Inr small_audio_response
        else Inl Transport_Error)\<rparr>"

definition download_only_page :: page_response where
  "download_only_page =
     \<lparr>page_status = 200,
      page_soup = \<lparr>soup_select = (\<lambda>selector. []),
                   soup_a_href = [''https://masstamilan.dev/download?id=7''],
                   soup_audio = [], soup_script = []\<rparr>\<rparr>"

definition download_only_env :: env where
  "download_only_env = offline_env \<lparr>session_get := (\<lambda>t url. Inr download_only_page)\<rparr>"

text \<open>A song page with a link to an MP3 file and, after it, an anchor whose target
  has ``download'' in it and a host part that opens a bracket without closing it.\<close>

definition malformed_page :: page_response where
  "malformed_page =
     \<lparr>page_status = 200,
      page_soup = \<lparr>soup_select = (\<lambda>selector. []),
                   soup_a_href = [''https://cdn.example/kutti.mp3'', ''//[download''],
                   soup_audio = [], soup_script = []\<rparr>\<rparr>"

definition malformed_page_env :: env where
  "malformed_page_env = offline_env \<lparr>session_get := (\<lambda>t url. Inr malformed_page)\<rparr>"




section \<open>Properties of the string functions\<close>

lemma py_replace_char:
  "py_replace [c] [d] s = map (\<lambda>x. if x = c then d else x) s"
  by (induction s) auto

lemma sanitize_replace:
  "foldl (\<lambda>name char. py_replace [char] ''_'' name) filename invalid_chars =
     map (\<lambda>c. if c \<in> set invalid_chars then CHR ''_'' else c) filename"
  by (simp add: invalid_chars_def py_replace_char)

lemma set_split_from:
  "v \<in> set (split_from w s) \<Longrightarrow> set v \<subseteq> set w \<union> set s"
proof (induction s arbitrary: w)
  case Nil
  then show ?case by (simp split: if_splits)
next
  case (Cons c cs)
  show ?case
    using Cons.prems Cons.IH [of "[]"] Cons.IH [of "w @ [c]"]
    by (auto split: if_splits)
qed

lemma set_py_split: "v \<in> set (py_split s) \<Longrightarrow> set v \<subseteq> set s"
  using set_split_from [of v "[]" s] by (simp add: py_split_def)

lemma set_py_join: "set (py_join sep ws) \<subseteq> set sep \<union> \<Union> (set ` set ws)"
  by (induction sep ws rule: py_join.induct) auto

lemma sanitize_chars:
  "set (sanitize_filename name) \<inter> set invalid_chars = {}"
proof -
  let ?m = "map (\<lambda>c. if c \<in> set invalid_chars then CHR ''_'' else c) name"
  have m: "set ?m \<inter> set invalid_chars = {}"
    by (auto simp: invalid_chars_def)
  have "set (py_join '' '' (py_split ?m)) \<subseteq> set '' '' \<union> set ?m"
    using set_py_join [of "'' ''" "py_split ?m"] set_py_split [of _ ?m] by blast
  moreover have "set '' '' \<inter> set invalid_chars = {}"
    by (simp add: invalid_chars_def)
  ultimately have "set (py_join '' '' (py_split ?m)) \<inter> set invalid_chars = {}"
    using m by blast
  moreover have "set (sanitize_filename name) \<subseteq> set (py_join '' '' (py_split ?m))"
    by (simp add: sanitize_filename_def sanitize_replace set_take_subset)
  ultimately show ?thesis by blast
qed

lemma py_in_sublist: "py_in p s = sublist p s"
  by (induction s) (auto simp: sublist_Cons_right)

lemma py_in_lower: "py_in p s \<Longrightarrow> py_in (py_lower p) (py_lower s)"
  unfolding py_in_sublist py_lower_def by (rule map_mono_sublist)

lemma sublist_dropWhile_keep:
  assumes "sublist p s" "p \<noteq> []" "\<forall>c\<in>set p. \<not> P c"
  shows "sublist p (dropWhile P s)"
proof -
  from assms(1) obtain ps ss where s: "s = ps @ p @ ss" by (auto simp: sublist_def)
  show ?thesis
  proof (cases "\<forall>x\<in>set ps. P x")
    case True
    have "\<not> P (hd p)" using assms(2,3) by simp
    then have "dropWhile P (p @ ss) = p @ ss"
      using assms(2) by (cases p) auto
    then have "dropWhile P s = p @ ss" using True by (simp add: s)
    then show ?thesis by simp
  next
    case False
    then obtain x where "x \<in> set ps" "\<not> P x" by blast
    then have "dropWhile P s = dropWhile P ps @ p @ ss"
      by (simp add: s)
    then show ?thesis by (auto simp: sublist_def)
  qed
qed

lemma py_in_strip:
  assumes "py_in p s" "p \<noteq> []" "\<forall>c\<in>set p. \<not> py_isspace c"
  shows "py_in p (py_strip s)"
proof -
  have 1: "sublist p (dropWhile py_isspace s)"
    using assms by (simp add: py_in_sublist sublist_dropWhile_keep)
  then have "sublist (rev p) (rev (dropWhile py_isspace s))"
    by simp
  then have "sublist (rev p) (dropWhile py_isspace (rev (dropWhile py_isspace s)))"
    using assms by (intro sublist_dropWhile_keep) auto
  then have "sublist (rev (rev p)) (rev (dropWhile py_isspace (rev (dropWhile py_isspace s))))"
    by (simp only: sublist_rev)
  then show ?thesis by (simp add: py_in_sublist py_strip_def)
qed

lemma length_py_strip: "length (py_strip s) \<le> length s"
  unfolding py_strip_def
  by (metis length_rev length_dropWhile_le order_trans)

lemma unwanted_words_plain:
  "word \<in> set unwanted_words \<Longrightarrow>
     py_lower word = word \<and> word \<noteq> [] \<and> (\<forall>c\<in>set word. \<not> py_isspace c)"
  by (auto simp: unwanted_words_def py_lower_def char_lower_def py_isspace_def py_whitespace_def)

lemma wanted_title_length:
  assumes "\<not> unwanted_title (hit_title h)"
  shows "5 \<le> length (hit_title h) \<and> 5 \<le> length (dict_get h ''title'' '''')"
proof -
  have len: "5 \<le> length (hit_title h)"
    using assms by (simp add: unwanted_title_def)
  have "length (hit_title h) \<le> length (dict_get h ''title'' '''')"
    using length_py_strip [of "py_lower (dict_get h ''title'' '''')"]
    by (simp add: hit_title_def py_lower_def)
  then show ?thesis using len by simp
qed

lemma wanted_title_words:
  assumes "\<not> unwanted_title (hit_title h)" "word \<in> set unwanted_words"
  shows "\<not> py_in word (hit_title h) \<and> \<not> py_in word (dict_get h ''title'' '''')"
proof -
  note w = unwanted_words_plain [OF assms(2)]
  have no: "\<not> py_in word (py_lower (hit_title h))"
    using assms by (auto simp: unwanted_title_def list_ex_iff)
  have t: "\<not> py_in word (hit_title h)"
    using no py_in_lower [of word "hit_title h"] w by auto
  have "\<not> py_in word (dict_get h ''title'' '''')"
  proof
    assume "py_in word (dict_get h ''title'' '''')"
    then have "py_in word (py_lower (dict_get h ''title'' ''''))"
      using py_in_lower [of word "dict_get h ''title'' ''''"] w by auto
    then have "py_in word (hit_title h)"
      using w by (simp add: hit_title_def py_in_strip)
    then show False using t by simp
  qed
  then show ?thesis using t by simp
qed

lemma strip_nonblank: "nonblank s \<Longrightarrow> py_strip s \<noteq> []"
proof -
  assume "nonblank s"
  then have "dropWhile py_isspace s \<noteq> []"
    by (auto simp: nonblank_def dropWhile_eq_Nil_conv)
  then have "\<exists>c\<in>set (rev (dropWhile py_isspace s)). \<not> py_isspace c"
    using hd_dropWhile [of py_isspace s] hd_in_set [of "dropWhile py_isspace s"]
    by (metis set_rev)
  then show ?thesis
    by (simp add: py_strip_def dropWhile_eq_Nil_conv)
qed

lemma nonblank_strip: "py_strip s \<noteq> [] \<Longrightarrow> nonblank (py_strip s)"
proof -
  let ?d = "dropWhile py_isspace (rev (dropWhile py_isspace s))"
  assume "py_strip s \<noteq> []"
  then have d: "?d \<noteq> []" by (simp add: py_strip_def)
  then have "\<not> py_isspace (hd ?d)" "hd ?d \<in> set ?d"
    using hd_dropWhile [of py_isspace "rev (dropWhile py_isspace s)"] by auto
  then show ?thesis unfolding nonblank_def py_strip_def by (metis set_rev)
qed

lemma split_from_words:
  "\<forall>c\<in>set w. \<not> py_isspace c \<Longrightarrow> v \<in> set (split_from w s) \<Longrightarrow>
     v \<noteq> [] \<and> (\<forall>c\<in>set v. \<not> py_isspace c)"
proof (induction s arbitrary: w)
  case Nil
  then show ?case by (cases "w = []") simp_all
next
  case (Cons c cs)
  show ?case
  proof (cases "py_isspace c")
    case True
    then have "v = w \<and> w \<noteq> [] \<or> v \<in> set (split_from [] cs)"
      using Cons.prems(2) by (cases "w = []") simp_all
    then show ?thesis using Cons.prems(1) Cons.IH [of "[]"] by auto
  next
    case False
    then have "v \<in> set (split_from (w @ [c]) cs)" using Cons.prems(2) by simp
    moreover have "\<forall>x\<in>set (w @ [c]). \<not> py_isspace x" using False Cons.prems(1) by simp
    ultimately show ?thesis using Cons.IH [of "w @ [c]"] by blast
  qed
qed

lemma py_split_words: "v \<in> set (py_split s) \<Longrightarrow> nonblank v"
  using split_from_words [of "[]" v s] unfolding py_split_def nonblank_def
  by (cases v) auto

lemma set_py_join_words: "v \<in> set ws \<Longrightarrow> set v \<subseteq> set (py_join sep ws)"
  by (induction sep ws rule: py_join.induct) auto

lemma join_nonblank: "ws \<noteq> [] \<Longrightarrow> \<forall>v\<in>set ws. nonblank v \<Longrightarrow> nonblank (py_join sep ws)"
  using set_py_join_words [of "hd ws" ws sep] unfolding nonblank_def
  by (cases ws) auto

lemma replace_nonblank:
  "nonblank new \<Longrightarrow> nonblank s \<Longrightarrow> nonblank (py_replace old new s)"
proof (induction old new s rule: py_replace.induct)
  case (1 old new)
  then show ?case by simp
next
  case (2 old new c cs)
  show ?case
  proof (cases "old \<noteq> [] \<and> prefix old (c # cs)")
    case True
    then show ?thesis using "2.prems"(1) by (auto simp: nonblank_def)
  next
    case False
    then show ?thesis using 2 by (auto simp: nonblank_def)
  qed
qed

section \<open>The deduplication filter\<close>

lemma filter_loop_acc:
  "filter_loop su st acc rs = acc @ filter_loop su st [] rs"
proof (induction rs arbitrary: su st acc)
  case Nil
  then show ?case by simp
next
  case (Cons r rs)
  show ?case
    using Cons.IH [of su st acc] Cons.IH [of "insert (hit_url r) su" "insert (hit_title r) st" "acc @ [r]"]
      Cons.IH [of "insert (hit_url r) su" "insert (hit_title r) st" "[r]"]
    by (simp add: Let_def)
qed

lemma filter_loop_Cons:
  "filter_loop su st [] (r # rs) =
     (if hit_url r \<in> su \<or> hit_title r \<in> st \<or> unwanted_title (hit_title r)
      then filter_loop su st [] rs
      else r # filter_loop (insert (hit_url r) su) (insert (hit_title r) st) [] rs)"
  using filter_loop_acc [of "insert (hit_url r) su" "insert (hit_title r) st" "[r]" rs]
  by (simp add: Let_def)

lemma filter_loop_subseq: "subseq (filter_loop su st [] rs) rs"
  by (induction rs arbitrary: su st) (auto simp: filter_loop_Cons simp del: filter_loop.simps(2))

lemma filter_loop_fresh:
  "h \<in> set (filter_loop su st [] rs) \<Longrightarrow>
     hit_url h \<notin> su \<and> hit_title h \<notin> st \<and> \<not> unwanted_title (hit_title h)"
  by (induction rs arbitrary: su st) (auto simp: filter_loop_Cons simp del: filter_loop.simps(2) split: if_splits)

lemma filter_loop_distinct:
  "distinct (map hit_url (filter_loop su st [] rs)) \<and>
   distinct (map hit_title (filter_loop su st [] rs))"
proof (induction rs arbitrary: su st)
  case Nil
  then show ?case by simp
next
  case (Cons r rs)
  let ?out = "filter_loop (insert (hit_url r) su) (insert (hit_title r) st) [] rs"
  have fresh: "hit_url r \<notin> hit_url ` set ?out" "hit_title r \<notin> hit_title ` set ?out"
    using filter_loop_fresh [of _ "insert (hit_url r) su" "insert (hit_title r) st" rs]
    by force+
  show ?case
    using Cons.IH [of su st] Cons.IH [of "insert (hit_url r) su" "insert (hit_title r) st"] fresh
    by (simp add: filter_loop_Cons del: filter_loop.simps(2))
qed


lemmas string_eval =
  hit_url_def hit_title_def dict_get_def unwanted_title_def unwanted_words_def
  py_lower_def char_lower_def py_strip_def py_isspace_def py_whitespace_def

lemma example_hits_filtered:
  "filter_and_deduplicate_results example_hits =
     [[(''url'', ''https://masstamilan.dev/songs/vaathi''), (''title'', ''Vaathi Coming''),
       (''source'', ''masstamilan_direct'')],
      [(''url'', ''https://masstamilan.dev/songs/kutti''), (''title'', ''  Kutti Story ''),
       (''source'', ''masstamilan_direct'')]]"
  by (simp add: filter_and_deduplicate_results_def example_hits_def string_eval)

lemma search_masstamilan_take:
  "\<exists>raw. fst (search_masstamilan env w query) = take 20 (filter_and_deduplicate_results raw)"
  by (auto simp: search_masstamilan_def Let_def split: prod.splits)

text \<open>
  Claim C4. For every list of raw search hits, the result of the deduplication and
  filter pass has no two entries with an equal URL or an equal normalised (lower-cased,
  stripped) title; no entry has a title shorter than 5 characters, normalised or as
  given, or a title containing one of the markers ``advertisement'', ``ad'', ``promo'';
  the entries that survive keep their order (the result is a subsequence of the input);
  and what \<open>search_masstamilan\<close> returns is the first 20 entries at most of such a
  result.
\<close>

theorem filter_and_deduplicate_results_sound:
  "distinct (map hit_url (filter_and_deduplicate_results results)) \<and>
   distinct (map hit_title (filter_and_deduplicate_results results)) \<and>
   (\<forall>h \<in> set (filter_and_deduplicate_results results).
      5 \<le> length (hit_title h) \<and> 5 \<le> length (dict_get h ''title'' '''') \<and>
      (\<forall>word \<in> set unwanted_words.
         \<not> py_in word (hit_title h) \<and> \<not> py_in word (dict_get h ''title'' ''''))) \<and>
   subseq (filter_and_deduplicate_results results) results \<and>
   (\<exists>raw. fst (search_masstamilan env w query) = take 20 (filter_and_deduplicate_results raw)) \<and>
   length (fst (search_masstamilan env w query)) \<le> 20"
proof -
  have "\<not> unwanted_title (hit_title h)" if "h \<in> set (filter_and_deduplicate_results results)" for h
    using that filter_loop_fresh [of h "{}" "{}" results]
    by (simp add: filter_and_deduplicate_results_def)
  then have "\<forall>h \<in> set (filter_and_deduplicate_results results).
      5 \<le> length (hit_title h) \<and> 5 \<le> length (dict_get h ''title'' '''') \<and>
      (\<forall>word \<in> set unwanted_words.
         \<not> py_in word (hit_title h) \<and> \<not> py_in word (dict_get h ''title'' ''''))"
    using wanted_title_length wanted_title_words by blast
  moreover have "length (fst (search_masstamilan env w query)) \<le> 20"
    using search_masstamilan_take [of env w query] by auto
  ultimately show ?thesis
    using filter_loop_distinct [of "{}" "{}" results] filter_loop_subseq [of "{}" "{}" results]
      search_masstamilan_take [of env w query]
    by (simp add: filter_and_deduplicate_results_def)
qed

theorem filter_and_deduplicate_results_sound_witness:
  "filter_and_deduplicate_results example_hits =
     [[(''url'', ''https://masstamilan.dev/songs/vaathi''), (''title'', ''Vaathi Coming''),
       (''source'', ''masstamilan_direct'')],
      [(''url'', ''https://masstamilan.dev/songs/kutti''), (''title'', ''  Kutti Story ''),
       (''source'', ''masstamilan_direct'')]] \<and>
   distinct (map hit_url (filter_and_deduplicate_results example_hits)) \<and>
   distinct (map hit_title (filter_and_deduplicate_results example_hits)) \<and>
   5 \<le> length (hit_title (hd (filter_and_deduplicate_results example_hits))) \<and>
   \<not> py_in ''ad'' (hit_title (hd (filter_and_deduplicate_results example_hits))) \<and>
   subseq (filter_and_deduplicate_results example_hits) example_hits \<and>
   length (fst (search_masstamilan offline_env empty_world ''kutti story'')) \<le> 20"
proof -
  have ne: "filter_and_deduplicate_results example_hits \<noteq> []"
    by (simp add: example_hits_filtered)
  then have "hd (filter_and_deduplicate_results example_hits)
               \<in> set (filter_and_deduplicate_results example_hits)"
    by simp
  moreover have "''ad'' \<in> set unwanted_words"
    by (simp add: unwanted_words_def)
  ultimately show ?thesis
    using filter_and_deduplicate_results_sound
            [of example_hits offline_env empty_world "''kutti story''"]
      example_hits_filtered
    by blast
qed




section \<open>Query variations\<close>

lemma candidates_nonblank:
  assumes "nonblank query" "v \<in> set (variation_candidates query)"
  shows "py_strip v \<noteq> []"
proof -
  let ?words = "py_split query"
  have words: "\<forall>x\<in>set ?words. nonblank x" using py_split_words by blast
  have firsts: "nonblank (py_join '' '' (take n ?words))" if "length ?words > 2" "n > 0" for n
  proof -
    have "take n ?words \<noteq> []" using that by auto
    moreover have "\<forall>x\<in>set (take n ?words). nonblank x"
      using words by (meson in_set_takeD)
    ultimately show ?thesis by (rule join_nonblank)
  qed
  have nb: "nonblank ''+''" "nonblank ''and''" "nonblank ''&''"
    by (simp_all add: nonblank_def py_isspace_def py_whitespace_def)
  have repl: "nonblank (py_replace '' '' ''+'' query)" "nonblank (py_replace ''&'' ''and'' query)"
    "nonblank (py_replace ''and'' ''&'' query)"
    using assms(1) nb by (simp_all only: replace_nonblank)
  have mem: "v \<in> set (concat (map (\<lambda>i. let variation = py_join '' '' (take i ?words @ drop (i + 1) ?words)
                                          in if length (py_strip variation) > 3
                                             then [py_strip variation] else [])
                                [0 ..< length ?words]))
             \<or> (length ?words > 2 \<and> v \<in> {py_join '' '' (take 2 ?words), py_join '' '' (take 3 ?words)})
             \<or> v \<in> {py_replace '' '' ''+'' query, py_replace ''&'' ''and'' query,
                      py_replace ''and'' ''&'' query}"
    using assms(2) unfolding variation_candidates_def Let_def
    by (cases "length ?words > 2") auto
  consider (drops) i where "v = py_strip (py_join '' '' (take i ?words @ drop (i + 1) ?words))"
      "length v > 3"
    | (others) "nonblank v"
    using mem firsts [of 2] firsts [of 3] repl
    by (auto simp: Let_def split: if_splits)
  then show ?thesis
  proof cases
    case drops
    then have "v \<noteq> []" by auto
    then show ?thesis using drops(1) nonblank_strip strip_nonblank by metis
  next
    case others
    then show ?thesis by (rule strip_nonblank)
  qed
qed

text \<open>
  Claim C6, as the code has it. Whatever order Python reads the set of variations in,
  the generator returns at most 5 strings, pairwise different, each of them one of the
  generated variations; and when the query has a character that is not whitespace,
  every returned string is non-empty after trimming. The order of the result is the
  iteration order of the set, not the order of generation.
\<close>

theorem generate_query_variations_bound:
  assumes "valid_set_order order"
  shows "length (generate_query_variations order query) \<le> 5 \<and>
         distinct (generate_query_variations order query) \<and>
         set (generate_query_variations order query) \<subseteq> set (variation_candidates query) \<and>
         (nonblank query \<longrightarrow> (\<forall>v\<in>set (generate_query_variations order query). py_strip v \<noteq> []))"
proof -
  have sub: "set (generate_query_variations order query) \<subseteq> set (variation_candidates query)"
    using assms set_take_subset [of 5 "order (variation_candidates query)"]
    by (auto simp: generate_query_variations_def valid_set_order_def)
  then have "\<forall>v\<in>set (generate_query_variations order query). py_strip v \<noteq> []" if "nonblank query"
    using that candidates_nonblank by blast
  then show ?thesis
    using assms sub by (auto simp: generate_query_variations_def valid_set_order_def)
qed

lemma valid_remdups: "valid_set_order remdups"
  by (simp add: valid_set_order_def)

lemma candidates_empty: "variation_candidates '''' = ['''', '''', '''']"
  by (simp add: variation_candidates_def py_split_def)

text \<open>
  The empty query: all three substitutions give the empty string, so the set holds
  only the empty string, in whatever order it is read, and the result is the list of
  one empty string.
\<close>

theorem variation_of_empty_query:
  "generate_query_variations remdups '''' = [''''] \<and> py_strip '''' = ''''"
  by (simp add: generate_query_variations_def candidates_empty py_strip_def)

lemma variations_example:
  "generate_query_variations remdups ''kutti story'' = [''kutti+story'', ''kutti story'']"
  by (simp add: generate_query_variations_def variation_candidates_def py_split_def
      py_isspace_def py_whitespace_def Let_def)

theorem generate_query_variations_bound_witness:
  "valid_set_order remdups \<and> nonblank ''kutti story'' \<and>
   generate_query_variations remdups ''kutti story'' = [''kutti+story'', ''kutti story''] \<and>
   length (generate_query_variations remdups ''kutti story'') \<le> 5 \<and>
   distinct (generate_query_variations remdups ''kutti story'') \<and>
   set (generate_query_variations remdups ''kutti story'') \<subseteq> set (variation_candidates ''kutti story'') \<and>
   py_strip ''kutti+story'' \<noteq> []"
proof -
  have v: "valid_set_order remdups" by (rule valid_remdups)
  have n: "nonblank ''kutti story''"
    by (simp add: nonblank_def py_isspace_def py_whitespace_def)
  have "''kutti+story'' \<in> set (generate_query_variations remdups ''kutti story'')"
    by (simp add: variations_example)
  then show ?thesis
    using generate_query_variations_bound [OF v, of "''kutti story''"] v n variations_example
    by blast
qed

section \<open>File names\<close>

lemma save_response_file:
  assumes "save_response env w url download_folder filename response = (True, w')"
  shows "\<exists>n. n > 1024 \<and>
           files w' (os_path_join download_folder
                      (destination_filename filename
                         (choose_ext env (header_or_empty (get_content_type response)) url))) = Some n"
  using assms unfolding save_response_def Let_def
  by (auto split: if_splits prod.splits stream_outcome.splits option.splits)

text \<open>
  Claim C8, as the code has it. \<open>sanitize_filename\<close> replaces every unsafe character by
  an underscore, then replaces every run of whitespace by one space and drops the
  whitespace at both ends, then keeps the first 100 characters; the result has no
  unsafe character, and \<^verbatim>\<open>A/B:C*D\<close> gives \<^verbatim>\<open>A_B_C_D\<close>. The extension is
  appended unless the sanitized name already ends in a supported format; it is
  \<^verbatim>\<open>.mp3\<close> or \<^verbatim>\<open>.m4a\<close> when the declared content type says so, else the
  lower-cased suffix of the URL path when that is a supported format, else
  \<^verbatim>\<open>.mp3\<close>. A transfer that is saved with success leaves a file of more than 1024
  bytes under that name in the download folder.
\<close>

theorem sanitize_filename_policy:
  "sanitize_filename name =
     take 100 (py_join '' '' (py_split (map (\<lambda>c. if c \<in> set invalid_chars then CHR ''_'' else c) name))) \<and>
   length (sanitize_filename name) \<le> 100 \<and>
   set (sanitize_filename name) \<inter> set invalid_chars = {} \<and>
   sanitize_filename ''A/B:C*D'' = ''A_B_C_D'' \<and>
   destination_filename name ext =
     (if \<exists>fmt\<in>set supported_formats. suffix fmt (py_lower (sanitize_filename name))
      then sanitize_filename name else sanitize_filename name @ ext) \<and>
   choose_ext env content_type url =
     (if py_in ''audio/mpeg'' content_type \<or> py_in ''audio/mp3'' content_type then ''.mp3''
      else if py_in ''audio/mp4'' content_type \<or> py_in ''audio/m4a'' content_type then ''.m4a''
      else if py_lower (splitext_ext (urlparse_path env url)) \<in> set supported_formats
      then py_lower (splitext_ext (urlparse_path env url))
      else ''.mp3'') \<and>
   (save_response env w url download_folder name response = (True, w') \<longrightarrow>
      (\<exists>n. n > 1024 \<and>
           files w' (os_path_join download_folder
                      (destination_filename name
                         (choose_ext env (header_or_empty (get_content_type response)) url))) = Some n))"
proof -
  have 1: "sanitize_filename name =
     take 100 (py_join '' '' (py_split (map (\<lambda>c. if c \<in> set invalid_chars then CHR ''_'' else c) name)))"
    by (simp add: sanitize_filename_def sanitize_replace)
  have 2: "length (sanitize_filename name) \<le> 100"
    by (simp add: sanitize_filename_def)
  have 3: "sanitize_filename ''A/B:C*D'' = ''A_B_C_D''"
    by (simp add: sanitize_filename_def invalid_chars_def py_split_def py_isspace_def py_whitespace_def)
  have 4: "destination_filename name ext =
     (if \<exists>fmt\<in>set supported_formats. suffix fmt (py_lower (sanitize_filename name))
      then sanitize_filename name else sanitize_filename name @ ext)"
    by (simp add: destination_filename_def Let_def list_ex_iff endswith_def)
  have 5: "choose_ext env content_type url =
     (if py_in ''audio/mpeg'' content_type \<or> py_in ''audio/mp3'' content_type then ''.mp3''
      else if py_in ''audio/mp4'' content_type \<or> py_in ''audio/m4a'' content_type then ''.m4a''
      else if py_lower (splitext_ext (urlparse_path env url)) \<in> set supported_formats
      then py_lower (splitext_ext (urlparse_path env url))
      else ''.mp3'')"
    by (simp add: choose_ext_def Let_def)
  show ?thesis
    using 1 2 3 4 5 sanitize_chars [of name] save_response_file [of env w url download_folder name response w']
    by blast
qed

lemma small_audio_saved:
  "fst (save_response offline_env empty_world ''https://files.example/get?id=7'' ''downloads''
          ''01_Vaathi: Coming'' small_audio_response) = True"
  by (simp add: save_response_def small_audio_response_def offline_env_def empty_world_def
      choose_ext_def destination_filename_def sanitize_filename_def invalid_chars_def
      py_split_def py_isspace_def py_whitespace_def supported_formats_def endswith_def
      startswith_def header_or_empty_def os_path_join_def py_lower_def char_lower_def
      write_file_def os_remove_def max_file_size_def Let_def suffix_to_prefix)

theorem sanitize_filename_policy_witness:
  "fst (save_response offline_env empty_world ''https://files.example/get?id=7'' ''downloads''
          ''01_Vaathi: Coming'' small_audio_response) = True \<and>
   (\<exists>n. n > 1024 \<and>
      files (snd (save_response offline_env empty_world ''https://files.example/get?id=7''
                    ''downloads'' ''01_Vaathi: Coming'' small_audio_response))
        (os_path_join ''downloads''
           (destination_filename ''01_Vaathi: Coming''
              (choose_ext offline_env (header_or_empty (get_content_type small_audio_response))
                 ''https://files.example/get?id=7''))) = Some n)"
proof -
  have e: "save_response offline_env empty_world ''https://files.example/get?id=7'' ''downloads''
          ''01_Vaathi: Coming'' small_audio_response =
        (True, snd (save_response offline_env empty_world ''https://files.example/get?id=7''
                    ''downloads'' ''01_Vaathi: Coming'' small_audio_response))"
    using small_audio_saved by (simp add: prod_eq_iff)
  show ?thesis
    using e small_audio_saved
      sanitize_filename_policy [of "''01_Vaathi: Coming''" "''.mp3''" offline_env "''audio/mpeg''"
        "''https://files.example/get?id=7''" empty_world "''downloads''" small_audio_response
        "snd (save_response offline_env empty_world ''https://files.example/get?id=7''
                    ''downloads'' ''01_Vaathi: Coming'' small_audio_response)"]
    by blast
qed

text \<open>
  A name with two spaces in a row: replacing unsafe characters and truncating leaves
  it as it is, \<open>sanitize_filename\<close> returns it with one space.
\<close>

theorem sanitize_collapses_spaces:
  "sanitize_filename ''A  B'' = ''A B'' \<and> replace_and_truncate ''A  B'' = ''A  B''"
  by (simp add: sanitize_filename_def replace_and_truncate_def invalid_chars_def py_split_def
      py_isspace_def py_whitespace_def)

section \<open>The link validator\<close>

lemma suffix_py_in: "suffix p s \<Longrightarrow> py_in p s"
  by (auto simp: py_in_sublist suffix_def)

lemma ends_with_has_format: "url_ends_with_format url \<Longrightarrow> url_has_format url"
  by (auto simp: url_ends_with_format_def url_has_format_def list_ex_iff endswith_def
      intro: suffix_py_in)

lemma validate_probe:
  assumes "\<not> url_has_format url"
  shows "validate_download_link env w url =
           ((case session_head env (clock w) url of Inl e \<Rightarrow> False | Inr r \<Rightarrow> probe_accepts r),
            net_call (Http_Head url) w)"
  using assms
  by (auto simp: validate_download_link_def probe_accepts_def Let_def max_file_size_def
      split: sum.splits option.splits)

text \<open>
  Claim C3, as the code has it. \<open>validate_download_link\<close> returns true at once, with
  no probe, when the lower-cased URL contains a supported format anywhere, which
  covers every URL that ends in one. For every other URL it makes one metadata probe
  and returns true exactly when the probe answers with status 200, a content type
  that contains, in lower case, one of the words \<^verbatim>\<open>audio\<close>, \<^verbatim>\<open>mpeg\<close>,
  \<^verbatim>\<open>mp3\<close> and \<^verbatim>\<open>mp4\<close> and, whenever a non-empty length is declared, a length
  that is a number between 1 MiB and 100 MiB; a probe that fails with a transport error
  gives false. The test of the content type is a test for these words and no more: a
  probe that declares \<^verbatim>\<open>video/mp4\<close> passes it.
\<close>

theorem validate_download_link_policy:
  "(url_ends_with_format url \<longrightarrow> validate_download_link env w url = (True, w)) \<and>
   (url_has_format url \<longrightarrow> validate_download_link env w url = (True, w)) \<and>
   (\<not> url_has_format url \<longrightarrow>
      snd (validate_download_link env w url) = net_call (Http_Head url) w \<and>
      (fst (validate_download_link env w url) \<longleftrightarrow>
         (\<exists>r. session_head env (clock w) url = Inr r \<and> head_status r = 200 \<and>
              is_audio_type (py_lower (header_or_empty (head_content_type r))) \<and>
              (\<forall>cl. head_content_length r = Some cl \<and> cl \<noteq> [] \<longrightarrow>
                 (\<exists>n. py_int cl = Some n \<and> 1024 * 1024 \<le> n \<and> n \<le> 100 * 1024 * 1024)))) \<and>
      (\<forall>e. session_head env (clock w) url = Inl e \<longrightarrow>
           \<not> fst (validate_download_link env w url)))"
proof -
  have 1: "validate_download_link env w url = (True, w)" if "url_has_format url"
    using that by (simp add: validate_download_link_def)
  have 2: "probe_accepts r \<longleftrightarrow>
             head_status r = 200 \<and>
              is_audio_type (py_lower (header_or_empty (head_content_type r))) \<and>
              (\<forall>cl. head_content_length r = Some cl \<and> cl \<noteq> [] \<longrightarrow>
                 (\<exists>n. py_int cl = Some n \<and> 1024 * 1024 \<le> n \<and> n \<le> 100 * 1024 * 1024))" for r
    by (auto simp: probe_accepts_def split: option.splits)
  have 3: "snd (validate_download_link env w url) = net_call (Http_Head url) w \<and>
      (fst (validate_download_link env w url) \<longleftrightarrow>
         (\<exists>r. session_head env (clock w) url = Inr r \<and> probe_accepts r)) \<and>
      (\<forall>e. session_head env (clock w) url = Inl e \<longrightarrow>
           \<not> fst (validate_download_link env w url))" if "\<not> url_has_format url"
    using validate_probe [OF that, of env w] by (auto split: sum.splits)
  show ?thesis using 1 2 3 ends_with_has_format [of url] by simp
qed

lemma py_int_examples:
  "py_int ''52428800'' = Some 52428800" "py_int ''512000'' = Some 512000"
  by (simp_all add: py_int_def py_strip_def py_isspace_def py_whitespace_def digit_val_def)

lemma video_probe_examples:
  "session_head video_probe_env (clock empty_world) ''https://files.example/get?id=7'' =
     Inr \<lparr>head_status = 200, head_content_type = Some ''video/mp4'',
          head_content_length = Some ''52428800''\<rparr>"
  "is_audio_type (py_lower ''video/mp4'')"
  "\<not> py_in ''audio'' (py_lower ''video/mp4'')"
  by (simp_all add: video_probe_env_def offline_env_def is_audio_type_def py_lower_def
      char_lower_def)

lemma probe_examples:
  "\<not> url_has_format ''https://files.example/get?id=7''"
  "\<not> url_has_format ''https://files.example/get?id=8''"
  "fst (validate_download_link probed_env empty_world ''https://files.example/get?id=7'')"
  "\<not> fst (validate_download_link probed_env empty_world ''https://files.example/get?id=8'')"
  by (simp_all add: validate_download_link_def url_has_format_def
      supported_formats_def py_lower_def char_lower_def probed_env_def offline_env_def
      empty_world_def py_int_examples header_or_empty_def is_audio_type_def max_file_size_def
      Let_def)

theorem validate_download_link_policy_witness:
  "url_ends_with_format ''https://cdn.example/kutti.MP3'' \<and>
   validate_download_link offline_env empty_world ''https://cdn.example/kutti.MP3''
     = (True, empty_world) \<and>
   \<not> url_has_format ''https://files.example/get?id=7'' \<and>
   fst (validate_download_link probed_env empty_world ''https://files.example/get?id=7'') \<and>
   snd (validate_download_link probed_env empty_world ''https://files.example/get?id=7'')
     = net_call (Http_Head ''https://files.example/get?id=7'') empty_world \<and>
   \<not> url_has_format ''https://files.example/get?id=8'' \<and>
   \<not> fst (validate_download_link probed_env empty_world ''https://files.example/get?id=8'') \<and>
   session_head offline_env (clock empty_world) ''https://files.example/get?id=7''
     = Inl Transport_Error \<and>
   \<not> fst (validate_download_link offline_env empty_world ''https://files.example/get?id=7'') \<and>
   session_head video_probe_env (clock empty_world) ''https://files.example/get?id=7'' =
     Inr \<lparr>head_status = 200, head_content_type = Some ''video/mp4'',
          head_content_length = Some ''52428800''\<rparr> \<and>
   \<not> py_in ''audio'' (py_lower ''video/mp4'') \<and>
   fst (validate_download_link video_probe_env empty_world ''https://files.example/get?id=7'')"
proof -
  have e: "url_ends_with_format ''https://cdn.example/kutti.MP3''"
    by (simp add: url_ends_with_format_def supported_formats_def endswith_def py_lower_def
        char_lower_def suffix_to_prefix)
  have off: "session_head offline_env (clock empty_world) ''https://files.example/get?id=7''
     = Inl Transport_Error"
    by (simp add: offline_env_def)
  have v: "fst (validate_download_link video_probe_env empty_world
                  ''https://files.example/get?id=7'')"
  proof -
    have "\<exists>r. session_head video_probe_env (clock empty_world) ''https://files.example/get?id=7''
                 = Inr r \<and> head_status r = 200 \<and>
              is_audio_type (py_lower (header_or_empty (head_content_type r))) \<and>
              (\<forall>cl. head_content_length r = Some cl \<and> cl \<noteq> [] \<longrightarrow>
                 (\<exists>n. py_int cl = Some n \<and> 1024 * 1024 \<le> n \<and> n \<le> 100 * 1024 * 1024))"
      using video_probe_examples py_int_examples by (simp add: header_or_empty_def)
    then show ?thesis
      using probe_examples(1)
        validate_download_link_policy
          [of "''https://files.example/get?id=7''" video_probe_env empty_world]
      by blast
  qed
  show ?thesis
    using e off probe_examples v video_probe_examples
      validate_download_link_policy [of "''https://cdn.example/kutti.MP3''" offline_env empty_world]
      validate_download_link_policy [of "''https://files.example/get?id=7''" probed_env empty_world]
      validate_download_link_policy [of "''https://files.example/get?id=7''" offline_env empty_world]
    by blast
qed

text \<open>
  A URL with \<^verbatim>\<open>.mp3\<close> before its query string does not end in a supported format,
  and yet is accepted with no probe, in an environment where every probe fails.
\<close>

theorem offline_link_accepted:
  "\<not> url_ends_with_format ''https://cdn.example/kutti.mp3?token=1'' \<and>
   session_head offline_env (clock empty_world) ''https://cdn.example/kutti.mp3?token=1''
     = Inl Transport_Error \<and>
   validate_download_link offline_env empty_world ''https://cdn.example/kutti.mp3?token=1''
     = (True, empty_world)"
  by (simp add: url_ends_with_format_def validate_download_link_def url_has_format_def
      supported_formats_def endswith_def py_lower_def char_lower_def offline_env_def
      suffix_to_prefix)

section \<open>Downloading one link\<close>

lemma write_chunks_too_large:
  "write_chunks w file_path n chunks e = (Too_Large, w') \<Longrightarrow> files w' file_path = None"
  by (induction w file_path n chunks e rule: write_chunks.induct)
     (auto simp: Let_def os_remove_def split: if_splits)

lemma write_chunks_interrupted:
  "write_chunks w file_path n chunks e = (Interrupted, w') \<Longrightarrow> e = Stream_Broken"
  by (induction w file_path n chunks e rule: write_chunks.induct)
     (auto simp: Let_def split: if_splits)

lemma save_response_cleanup:
  assumes "save_response env w url download_folder filename response = (False, w')"
    and "get_stream_end response = Stream_Done"
    and "open_wb env (os_path_join download_folder
           (destination_filename filename
              (choose_ext env (header_or_empty (get_content_type response)) url)))"
  shows "files w' (os_path_join download_folder
           (destination_filename filename
              (choose_ext env (header_or_empty (get_content_type response)) url))) = None"
  using assms unfolding save_response_def Let_def
  by (auto simp: os_remove_def dest: write_chunks_too_large write_chunks_interrupted
      split: prod.splits stream_outcome.splits option.splits if_splits)

lemma download_file_verified:
  assumes "download_file env w url download_folder filename = (True, w')"
  shows "\<exists>path n. files w' path = Some n \<and> 1024 < n"
proof -
  have s: "\<exists>path n. files v' path = Some n \<and> 1024 < n"
    if "save_response env v url download_folder filename response = (True, v')"
    for v v' response
    using save_response_file [OF that] by blast
  have f: "\<exists>path n. files v' path = Some n \<and> 1024 < n"
    if "fetch_and_save env v url download_folder filename = (True, v')" for v v'
    using that s unfolding fetch_and_save_def Let_def
    by (auto split: sum.splits option.splits if_splits)
  show ?thesis
    using assms f unfolding download_file_def Let_def
    by (auto split: sum.splits if_splits)
qed

text \<open>
  Claim C1, at the input where the code departs from it. A download is reported as
  successful only with a file of more than 1024 bytes (\<open>download_file_verified\<close>), and
  a transfer that arrives whole and is refused leaves no file
  (\<open>save_response_cleanup\<close>). But a transfer that sends one chunk of 8192 bytes and
  then breaks is a failed link attempt after which the 8192 bytes stay in the download
  folder: the exception handler of \<^verbatim>\<open>_download_file\<close> returns without removing the
  file.
\<close>

theorem interrupted_transfer_leaves_file:
  "fst (download_file broken_stream_env empty_world ''https://cdn.example/kutti.mp3''
          ''downloads'' ''Kutti Story'') = False \<and>
   files (snd (download_file broken_stream_env empty_world ''https://cdn.example/kutti.mp3''
                 ''downloads'' ''Kutti Story''))
     ''downloads/Kutti Story.mp3'' = Some 8192"
  by (simp add: download_file_def fetch_and_save_def save_response_def url_has_format_def
      broken_stream_env_def offline_env_def empty_world_def net_call_def raises_for_status_def
      choose_ext_def destination_filename_def sanitize_filename_def invalid_chars_def
      py_split_def py_isspace_def py_whitespace_def supported_formats_def endswith_def
      startswith_def header_or_empty_def os_path_join_def py_lower_def char_lower_def
      write_file_def os_remove_def max_file_size_def Let_def suffix_to_prefix)

section \<open>The attempts of download_song\<close>




























section \<open>Batches\<close>





lemmas string_defs =
  py_split_def py_isspace_def py_whitespace_def supported_formats_def endswith_def
  startswith_def py_lower_def char_lower_def suffix_to_prefix

lemmas urljoin_defs =
  example_urljoin_def url_netloc_def unmatched_bracket_def url_scheme_def url_origin_def
  url_directory_def









section \<open>The search cascade\<close>

lemma cascade_variations:
  "cascade env w query (map Variation variations) = variation_loop env w variations"
  by (induction variations arbitrary: w) (auto split: prod.splits)

lemma search_masstamilan_refines:
  "search_masstamilan env w query =
     (take 20 (filter_and_deduplicate_results
                 (fst (cascade env w (clean_search_query query)
                         (stages env (clean_search_query query))))),
      snd (cascade env w (clean_search_query query) (stages env (clean_search_query query))))"
  by (simp add: search_masstamilan_def stages_def cascade_variations Let_def case_prod_beta)

lemma direct_failure:
  assumes "base \<noteq> []"
    and "session_get env (clock w) (base @ ''/?s='' @ quote_plus env query) = Inl e"
  shows "fst (search_masstamilan_direct env w query base) = []"
  using assms by (simp add: search_masstamilan_direct_def Let_def sleep_def)

lemma direct_raise:
  assumes "base \<noteq> []"
    and "session_get env (clock w) (base @ ''/?s='' @ quote_plus env query) = Inr response"
    and "direct_hits env base (page_soup response) = None"
  shows "fst (search_masstamilan_direct env w query base) = []"
  using assms by (simp add: search_masstamilan_direct_def Let_def sleep_def)

lemma selenium_failure:
  assumes "\<not> get_driver env (clock w) \<or>
           driver_get env (clock w) (masstamilan @ ''/?s='' @ quote_plus env query)
             Css_Search_Links = Inl e"
  shows "fst (search_masstamilan_selenium env w query) = []"
  using assms by (auto simp: search_masstamilan_selenium_def Let_def)

lemma cascade_empty:
  "fst (cascade env w query sts) = [] \<Longrightarrow>
     cascade env w query (sts @ later) = cascade env (snd (cascade env w query sts)) query later"
  by (induction sts arbitrary: w) (auto split: prod.splits if_splits)

lemma cascade_yield:
  "fst (cascade env w query sts) \<noteq> [] \<Longrightarrow>
     cascade env w query (sts @ later) = cascade env w query sts"
  by (induction sts arbitrary: w) (auto split: prod.splits if_splits)

text \<open>
  Claim C5, as the code has it. \<open>search_masstamilan\<close> runs the cascade of the stages in
  their fixed order: the primary site, the backup site, the browser, then the query
  variations, of which there are at most 5, against the primary site. A stage runs only
  if every stage before it has yielded no hit, and the first stage that yields a hit
  ends the cascade. A direct search whose request fails, and a browser search whose
  driver is missing or whose request fails, yield no hit, like a stage that finds
  nothing. The result is the first 20 entries of the filtered hits of the stage that
  yielded: it is empty exactly when the filter leaves nothing of them, which happens
  when all stages are exhausted and also when the filter removes every hit of the
  stage that yielded. No path of the function raises.
\<close>

theorem search_masstamilan_cascade:
  "search_masstamilan env w query =
     (take 20 (filter_and_deduplicate_results
                 (fst (cascade env w (clean_search_query query)
                         (stages env (clean_search_query query))))),
      snd (cascade env w (clean_search_query query) (stages env (clean_search_query query)))) \<and>
   stages env (clean_search_query query) =
     [Primary, Backup, Dynamic] @
     map Variation (generate_query_variations (set_order env) (clean_search_query query)) \<and>
   length (generate_query_variations (set_order env) (clean_search_query query)) \<le> 5 \<and>
   (fst (cascade env w q sts) \<noteq> [] \<longrightarrow> cascade env w q (sts @ later) = cascade env w q sts) \<and>
   (fst (cascade env w q sts) = [] \<longrightarrow>
      cascade env w q (sts @ later) = cascade env (snd (cascade env w q sts)) q later) \<and>
   (base \<noteq> [] \<and> session_get env (clock w) (base @ ''/?s='' @ quote_plus env q) = Inl e \<longrightarrow>
      fst (search_masstamilan_direct env w q base) = []) \<and>
   (\<not> get_driver env (clock w) \<or>
    driver_get env (clock w) (masstamilan @ ''/?s='' @ quote_plus env q) Css_Search_Links = Inl e \<longrightarrow>
      fst (search_masstamilan_selenium env w q) = []) \<and>
   (fst (search_masstamilan env w query) = [] \<longleftrightarrow>
      filter_and_deduplicate_results
        (fst (cascade env w (clean_search_query query) (stages env (clean_search_query query)))) = [])"
proof -
  have len: "length (generate_query_variations (set_order env) (clean_search_query query)) \<le> 5"
    by (simp add: generate_query_variations_def)
  have empty: "fst (search_masstamilan env w query) = [] \<longleftrightarrow>
      filter_and_deduplicate_results
        (fst (cascade env w (clean_search_query query) (stages env (clean_search_query query)))) = []"
    by (simp add: search_masstamilan_refines)
  show ?thesis
    using search_masstamilan_refines [of env w query] len empty
      cascade_yield [of env w q sts later] cascade_empty [of env w q sts later]
      direct_failure [of base env w q e] selenium_failure [of env w q e]
    by (simp add: stages_def)
qed

lemmas clean_eval =
  clean_search_query_def word_chars_def stop_words_def py_split_def py_isspace_def
  py_whitespace_def py_lower_def char_lower_def Let_def

lemma clean_examples:
  "clean_search_query ''Kutti Story'' = ''kutti story''"
  "clean_search_query ''Adiye Azhage'' = ''adiye azhage''"
  by (simp_all add: clean_eval)

lemma primary_times_out:
  "session_get backup_only_env (clock empty_world)
     (masstamilan @ ''/?s='' @ quote_plus backup_only_env ''kutti story'') = Inl Timeout"
  by (simp add: backup_only_env_def offline_env_def masstamilan_def backup_masstamilan_def
      startswith_def)

lemma backup_search:
  "search_masstamilan backup_only_env empty_world ''Kutti Story'' =
     ([[(''url'', ''https://www.masstamilan.com/songs/kutti-story''), (''title'', ''Kutti Story''),
        (''source'', ''masstamilan_direct'')]],
      net_call (Http_Get ''https://www.masstamilan.com/?s=kutti+story'')
        (sleep Sleep_Random
           (net_call (Http_Get ''https://masstamilan.dev/?s=kutti+story'')
              (sleep Sleep_Random empty_world))))"
  by (simp add: search_masstamilan_def clean_examples search_masstamilan_direct_def
      backup_only_env_def offline_env_def masstamilan_def backup_masstamilan_def
      startswith_def page_with_link_def direct_hits_def direct_hit_def selectors_def urljoin_defs
      raises_for_status_def net_call_def sleep_def filter_and_deduplicate_results_def
      string_eval Let_def)

theorem search_masstamilan_cascade_witness:
  "session_get backup_only_env (clock empty_world)
     (masstamilan @ ''/?s='' @ quote_plus backup_only_env ''kutti story'') = Inl Timeout \<and>
   fst (search_masstamilan_direct backup_only_env empty_world ''kutti story'' masstamilan) = [] \<and>
   \<not> get_driver backup_only_env (clock empty_world) \<and>
   fst (search_masstamilan_selenium backup_only_env empty_world ''kutti story'') = [] \<and>
   fst (cascade backup_only_env empty_world ''kutti story'' [Primary]) = [] \<and>
   cascade backup_only_env empty_world ''kutti story'' ([Primary] @ [Backup]) =
     cascade backup_only_env
       (snd (cascade backup_only_env empty_world ''kutti story'' [Primary])) ''kutti story''
       [Backup] \<and>
   search_masstamilan backup_only_env empty_world ''Kutti Story'' =
     (take 20 (filter_and_deduplicate_results
                 (fst (cascade backup_only_env empty_world (clean_search_query ''Kutti Story'')
                         (stages backup_only_env (clean_search_query ''Kutti Story''))))),
      snd (cascade backup_only_env empty_world (clean_search_query ''Kutti Story'')
             (stages backup_only_env (clean_search_query ''Kutti Story'')))) \<and>
   fst (search_masstamilan backup_only_env empty_world ''Kutti Story'') =
     [[(''url'', ''https://www.masstamilan.com/songs/kutti-story''), (''title'', ''Kutti Story''),
       (''source'', ''masstamilan_direct'')]]"
proof -
  have base: "masstamilan \<noteq> []" by (simp add: masstamilan_def)
  have drv: "\<not> get_driver backup_only_env (clock empty_world)"
    by (simp add: backup_only_env_def offline_env_def)
  note inst = search_masstamilan_cascade
    [of backup_only_env empty_world "''Kutti Story''" "''kutti story''" "[Primary]" "[Backup]"
        masstamilan Timeout]
  have d: "fst (search_masstamilan_direct backup_only_env empty_world ''kutti story'' masstamilan) = []"
    using inst base primary_times_out by blast
  have c: "fst (cascade backup_only_env empty_world ''kutti story'' [Primary]) = []"
    using d by (simp add: case_prod_beta)
  show ?thesis
    using inst base primary_times_out drv d c backup_search by simp
qed

text \<open>
  The primary site answers the query with one hit, titled ``Adiye Azhage''. The
  cascade stops there, after one request; the filter removes the hit, because its
  title contains ``ad'', and the search returns the empty list with three stages
  never run.
\<close>

theorem filtered_after_first_stage:
  "fst (search_masstamilan_direct adiye_env empty_world (clean_search_query ''Adiye Azhage'')
          masstamilan)
     = [[(''url'', ''https://masstamilan.dev/songs/adiye-azhage''), (''title'', ''Adiye Azhage''),
         (''source'', ''masstamilan_direct'')]] \<and>
   fst (search_masstamilan adiye_env empty_world ''Adiye Azhage'') = [] \<and>
   log (snd (search_masstamilan adiye_env empty_world ''Adiye Azhage'')) =
     [Sleep_Random, Http_Get ''https://masstamilan.dev/?s=adiye+azhage'']"
  by (simp add: search_masstamilan_def clean_examples search_masstamilan_direct_def
      adiye_env_def offline_env_def empty_world_def masstamilan_def
      startswith_def page_with_link_def direct_hits_def direct_hit_def selectors_def urljoin_defs
      raises_for_status_def net_call_def sleep_def filter_and_deduplicate_results_def
      string_eval Let_def)

section \<open>The links of a song page\<close>

lemma subseq_remdups: "subseq (remdups xs) xs"
  by (induction xs) auto

lemma subseq_rev_iff: "subseq (rev xs) (rev ys) \<longleftrightarrow> subseq xs ys"
proof -
  have "subseq (rev as) (rev bs)" if "subseq as bs" for as bs :: "'a list"
    using that by (induction rule: list_emb.induct) (auto intro: subseq_rev_drop_many subseq_append)
  then show ?thesis by (metis rev_rev_ident)
qed

lemma dict_fromkeys_props:
  "distinct (dict_fromkeys xs) \<and> set (dict_fromkeys xs) = set xs \<and> subseq (dict_fromkeys xs) xs"
  using subseq_remdups [of "rev xs"] subseq_rev_iff [of "remdups (rev xs)" "rev xs"]
  by (simp add: dict_fromkeys_def)

lemma extend_all_None: "extend_all steps = None \<longleftrightarrow> None \<in> set steps"
  by (induction steps rule: extend_all.induct) auto

lemma extend_all_Some:
  "extend_all steps = Some xs \<Longrightarrow> set xs = {x. \<exists>ys. Some ys \<in> set steps \<and> x \<in> set ys}"
  by (induction steps arbitrary: xs rule: extend_all.induct) auto

lemma collect_links_mem:
  "c \<in> set (collect_links env page) \<longleftrightarrow>
     (c \<in> set (soup_a_href page) \<and> (endswith c ''.mp3'' \<or> py_in ''download'' (py_lower c))) \<or>
     (Some c \<in> set (soup_audio page) \<and> endswith c ''.mp3'') \<or>
     (\<exists>s. Some s \<in> set (soup_script page) \<and> s \<noteq> [] \<and> c \<in> set (findall_mp3 env s))"
  by (auto simp: collect_links_def endswith_def split: option.splits if_splits)

lemma clean_links_None:
  "clean_links env url links = None \<longleftrightarrow>
     (\<exists>c. c \<in> set links \<and> \<not> (startswith c ''http'' \<and> endswith c ''.mp3'') \<and>
          startswith c ''/'' \<and> urljoin env url c = None)"
  by (auto simp: clean_links_def extend_all_None clean_link_def image_iff
      split: if_splits option.splits)

lemma clean_links_Cons:
  "clean_links env url (c # links) =
     (case clean_link env url c of
        None \<Rightarrow> None
      | Some xs \<Rightarrow> map_option (\<lambda>ys. xs @ ys) (clean_links env url links))"
  by (simp add: clean_links_def split: option.splits)

lemma clean_link_mem:
  assumes "clean_link env url c = Some xs"
  shows "l \<in> set xs \<longleftrightarrow>
     (startswith c ''http'' \<and> endswith c ''.mp3'' \<and> l = c) \<or>
     (\<not> (startswith c ''http'' \<and> endswith c ''.mp3'') \<and> startswith c ''/'' \<and>
      urljoin env url c = Some l)"
  using assms by (auto simp: clean_link_def split: if_splits option.splits)

lemma clean_links_mem:
  assumes "clean_links env url links = Some cleaned"
  shows "l \<in> set cleaned \<longleftrightarrow>
     (\<exists>c. c \<in> set links \<and>
        ((startswith c ''http'' \<and> endswith c ''.mp3'' \<and> l = c) \<or>
         (\<not> (startswith c ''http'' \<and> endswith c ''.mp3'') \<and> startswith c ''/'' \<and>
          urljoin env url c = Some l)))"
  using assms
proof (induction links arbitrary: cleaned)
  case Nil
  then show ?case by (simp add: clean_links_def)
next
  case (Cons d links)
  obtain xs rest where p: "clean_link env url d = Some xs" "clean_links env url links = Some rest"
    "cleaned = xs @ rest"
    using Cons.prems by (auto simp: clean_links_Cons split: option.splits)
  define P where "P = (\<lambda>c. (startswith c ''http'' \<and> endswith c ''.mp3'' \<and> l = c) \<or>
         (\<not> (startswith c ''http'' \<and> endswith c ''.mp3'') \<and> startswith c ''/'' \<and>
          urljoin env url c = Some l))"
  have 1: "l \<in> set cleaned \<longleftrightarrow> l \<in> set xs \<or> l \<in> set rest"
    using p(3) by simp
  have 2: "l \<in> set xs \<longleftrightarrow> P d"
    unfolding P_def by (rule clean_link_mem [OF p(1)])
  have 3: "l \<in> set rest \<longleftrightarrow> (\<exists>c. c \<in> set links \<and> P c)"
    unfolding P_def by (rule Cons.IH [OF p(2)])
  have 4: "(\<exists>c. c \<in> set (d # links) \<and> P c) \<longleftrightarrow> P d \<or> (\<exists>c. c \<in> set links \<and> P c)"
    by auto
  have "l \<in> set cleaned \<longleftrightarrow> (\<exists>c. c \<in> set (d # links) \<and> P c)"
    using 1 2 3 4 by simp
  then show ?case unfolding P_def .
qed

text \<open>
  Claim C7, as the code has it. \<open>get_download_links\<close> returns the empty list when the
  page cannot be fetched, and also when one of the candidates that start with
  \<^verbatim>\<open>/\<close> cannot be resolved, because \<^verbatim>\<open>urljoin\<close> raises on it. Otherwise it returns
  the links extracted from the page, which are pairwise different and keep the order of
  discovery. The candidates are the anchor targets that end in \<^verbatim>\<open>.mp3\<close> or contain
  ``download'', the sources of audio elements that end in \<^verbatim>\<open>.mp3\<close>, and what the
  pattern search finds in the script texts. A candidate that starts with \<^verbatim>\<open>http\<close>
  and ends in \<^verbatim>\<open>.mp3\<close> is a link as it is; any other candidate that starts with
  \<^verbatim>\<open>/\<close> is a link after being resolved against the URL of the page; every other
  candidate is dropped.
\<close>

theorem get_download_links_extract:
  "distinct (fst (get_download_links env w url)) \<and>
   (\<forall>e. session_get env (clock w) url = Inl e \<longrightarrow> fst (get_download_links env w url) = []) \<and>
   (\<forall>response. session_get env (clock w) url = Inr response \<longrightarrow>
      fst (get_download_links env w url) =
        (if raises_for_status (page_status response) then []
         else case extract_links env (page_soup response) url of
                None \<Rightarrow> []
              | Some links \<Rightarrow> links)) \<and>
   (extract_links env page url = None \<longleftrightarrow>
      (\<exists>c. c \<in> set (collect_links env page) \<and>
           \<not> (startswith c ''http'' \<and> endswith c ''.mp3'') \<and> startswith c ''/'' \<and>
           urljoin env url c = None)) \<and>
   (\<forall>links. extract_links env page url = Some links \<longrightarrow>
      distinct links \<and>
      (\<exists>cleaned. clean_links env url (collect_links env page) = Some cleaned \<and>
                 subseq links cleaned) \<and>
      (l \<in> set links \<longleftrightarrow>
         (\<exists>c. c \<in> set (collect_links env page) \<and>
            ((startswith c ''http'' \<and> endswith c ''.mp3'' \<and> l = c) \<or>
             (\<not> (startswith c ''http'' \<and> endswith c ''.mp3'') \<and> startswith c ''/'' \<and>
              urljoin env url c = Some l))))) \<and>
   (c \<in> set (collect_links env page) \<longleftrightarrow>
      (c \<in> set (soup_a_href page) \<and> (endswith c ''.mp3'' \<or> py_in ''download'' (py_lower c))) \<or>
      (Some c \<in> set (soup_audio page) \<and> endswith c ''.mp3'') \<or>
      (\<exists>s. Some s \<in> set (soup_script page) \<and> s \<noteq> [] \<and> c \<in> set (findall_mp3 env s)))"
proof -
  have d: "distinct links" if "extract_links env p url = Some links" for p links
    using that dict_fromkeys_props by (auto simp: extract_links_def)
  have 1: "distinct (fst (get_download_links env w url))"
    using d by (auto simp: get_download_links_def Let_def split: sum.splits option.splits)
  have 2: "\<forall>e. session_get env (clock w) url = Inl e \<longrightarrow> fst (get_download_links env w url) = []"
    by (simp add: get_download_links_def Let_def)
  have 3: "\<forall>response. session_get env (clock w) url = Inr response \<longrightarrow>
      fst (get_download_links env w url) =
        (if raises_for_status (page_status response) then []
         else case extract_links env (page_soup response) url of
                None \<Rightarrow> []
              | Some links \<Rightarrow> links)"
    by (simp add: get_download_links_def Let_def split: option.splits)
  have 4: "extract_links env page url = None \<longleftrightarrow>
      (\<exists>c. c \<in> set (collect_links env page) \<and>
           \<not> (startswith c ''http'' \<and> endswith c ''.mp3'') \<and> startswith c ''/'' \<and>
           urljoin env url c = None)"
    using clean_links_None [of env url "collect_links env page"]
    by (simp add: extract_links_def)
  have 5: "distinct links \<and>
      (\<exists>cleaned. clean_links env url (collect_links env page) = Some cleaned \<and>
                 subseq links cleaned) \<and>
      (l \<in> set links \<longleftrightarrow>
         (\<exists>c. c \<in> set (collect_links env page) \<and>
            ((startswith c ''http'' \<and> endswith c ''.mp3'' \<and> l = c) \<or>
             (\<not> (startswith c ''http'' \<and> endswith c ''.mp3'') \<and> startswith c ''/'' \<and>
              urljoin env url c = Some l))))"
    if e: "extract_links env page url = Some links" for links
  proof -
    obtain cleaned where c: "clean_links env url (collect_links env page) = Some cleaned"
      "links = dict_fromkeys cleaned"
      using e by (auto simp: extract_links_def)
    have s: "subseq links cleaned" "set links = set cleaned"
      using dict_fromkeys_props [of cleaned] c(2) by simp_all
    show ?thesis
      using d [OF e] c(1) s clean_links_mem [OF c(1), of l] by auto
  qed
  show ?thesis
    using 1 2 3 4 5 collect_links_mem [of c env page] by blast
qed

lemma song_page_extract:
  "extract_links song_page_env (page_soup song_page) ''https://masstamilan.dev/songs/kutti'' =
     Some [''https://masstamilan.dev/files/kutti.mp3'', ''https://cdn.example/kutti.mp3'']"
  by (simp add: extract_links_def collect_links_def clean_links_def clean_link_def
      dict_fromkeys_def song_page_env_def song_page_def offline_env_def urljoin_defs
      string_defs Let_def)

lemma malformed_page_facts:
  "''//[download'' \<in> set (collect_links malformed_page_env (page_soup malformed_page))"
  "startswith ''//[download'' ''/''"
  "\<not> endswith ''//[download'' ''.mp3''"
  "urljoin malformed_page_env ''https://masstamilan.dev/songs/kutti'' ''//[download'' = None"
  "''https://cdn.example/kutti.mp3'' \<in> set (collect_links malformed_page_env (page_soup malformed_page))"
  by (simp_all add: collect_links_def malformed_page_env_def malformed_page_def offline_env_def
      urljoin_defs string_defs)

theorem get_download_links_extract_witness:
  "session_get song_page_env (clock empty_world) ''https://masstamilan.dev/songs/kutti''
     = Inr song_page \<and>
   \<not> raises_for_status (page_status song_page) \<and>
   extract_links song_page_env (page_soup song_page) ''https://masstamilan.dev/songs/kutti'' =
     Some [''https://masstamilan.dev/files/kutti.mp3'', ''https://cdn.example/kutti.mp3''] \<and>
   fst (get_download_links song_page_env empty_world ''https://masstamilan.dev/songs/kutti'')
     = [''https://masstamilan.dev/files/kutti.mp3'', ''https://cdn.example/kutti.mp3''] \<and>
   distinct (fst (get_download_links song_page_env empty_world
                    ''https://masstamilan.dev/songs/kutti'')) \<and>
   ''/files/kutti.mp3'' \<in> set (collect_links song_page_env (page_soup song_page)) \<and>
   urljoin song_page_env ''https://masstamilan.dev/songs/kutti'' ''/files/kutti.mp3''
     = Some ''https://masstamilan.dev/files/kutti.mp3'' \<and>
   session_get malformed_page_env (clock empty_world) ''https://masstamilan.dev/songs/kutti''
     = Inr malformed_page \<and>
   \<not> raises_for_status (page_status malformed_page) \<and>
   ''https://cdn.example/kutti.mp3''
     \<in> set (collect_links malformed_page_env (page_soup malformed_page)) \<and>
   ''//[download'' \<in> set (collect_links malformed_page_env (page_soup malformed_page)) \<and>
   urljoin malformed_page_env ''https://masstamilan.dev/songs/kutti'' ''//[download'' = None \<and>
   extract_links malformed_page_env (page_soup malformed_page)
     ''https://masstamilan.dev/songs/kutti'' = None \<and>
   fst (get_download_links malformed_page_env empty_world ''https://masstamilan.dev/songs/kutti'')
     = []"
proof -
  have g: "session_get song_page_env (clock empty_world) ''https://masstamilan.dev/songs/kutti''
     = Inr song_page"
    "session_get malformed_page_env (clock empty_world) ''https://masstamilan.dev/songs/kutti''
     = Inr malformed_page"
    by (simp_all add: song_page_env_def malformed_page_env_def offline_env_def)
  have s: "\<not> raises_for_status (page_status song_page)"
    "\<not> raises_for_status (page_status malformed_page)"
    by (simp_all add: song_page_def malformed_page_def raises_for_status_def)
  have a: "''/files/kutti.mp3'' \<in> set (soup_a_href (page_soup song_page))"
    "endswith ''/files/kutti.mp3'' ''.mp3''"
    by (simp_all add: song_page_def string_defs)
  have j: "urljoin song_page_env ''https://masstamilan.dev/songs/kutti'' ''/files/kutti.mp3''
     = Some ''https://masstamilan.dev/files/kutti.mp3''"
    by (simp add: song_page_env_def offline_env_def urljoin_defs string_defs)
  note good = get_download_links_extract
    [of song_page_env empty_world "''https://masstamilan.dev/songs/kutti''" "page_soup song_page"
        "''https://masstamilan.dev/files/kutti.mp3''" "''/files/kutti.mp3''"]
  note bad = get_download_links_extract
    [of malformed_page_env empty_world "''https://masstamilan.dev/songs/kutti''"
        "page_soup malformed_page" "''https://cdn.example/kutti.mp3''" "''//[download''"]
  have c: "''/files/kutti.mp3'' \<in> set (collect_links song_page_env (page_soup song_page))"
    using good a by blast
  have l: "fst (get_download_links song_page_env empty_world ''https://masstamilan.dev/songs/kutti'')
     = [''https://masstamilan.dev/files/kutti.mp3'', ''https://cdn.example/kutti.mp3'']"
    using good g(1) s(1) song_page_extract by simp
  have dist: "distinct (fst (get_download_links song_page_env empty_world
                    ''https://masstamilan.dev/songs/kutti''))"
    using good by blast
  have n: "extract_links malformed_page_env (page_soup malformed_page)
     ''https://masstamilan.dev/songs/kutti'' = None"
    using bad malformed_page_facts by blast
  have e: "fst (get_download_links malformed_page_env empty_world
                  ''https://masstamilan.dev/songs/kutti'') = []"
    using bad g(2) s(2) n by simp
  show ?thesis
    using g s song_page_extract l dist c j malformed_page_facts n e by blast
qed

text \<open>
  A page whose only anchor points to an absolute address with ``download'' in it that
  does not end in \<^verbatim>\<open>.mp3\<close>: the anchor is a candidate, and the returned list is empty.
\<close>

theorem download_anchor_dropped:
  "session_get download_only_env (clock empty_world) ''https://masstamilan.dev/songs/kutti''
     = Inr download_only_page \<and>
   page_status download_only_page = 200 \<and>
   soup_a_href (page_soup download_only_page) = [''https://masstamilan.dev/download?id=7''] \<and>
   py_in ''download'' ''https://masstamilan.dev/download?id=7'' \<and>
   fst (get_download_links download_only_env empty_world ''https://masstamilan.dev/songs/kutti'')
     = []"
  by (simp add: get_download_links_def extract_links_def collect_links_def clean_links_def
      clean_link_def dict_fromkeys_def download_only_env_def download_only_page_def
      offline_env_def raises_for_status_def string_defs Let_def)

end
